theory Spec2Isabelle
  imports Complex_Main
begin

section \<open>Values and errors\<close>

text \<open>
  The source is Python 2 on numpy. An exception is a value of \<open>error\<close>. A numpy
  floating-point scalar is a finite number, an infinity or not-a-number: division by zero
  and the logarithm of zero do not raise in numpy, they return these values. Finite values
  are modelled exactly, as reals: rounding, overflow and the sign of zero are outside the
  model (a zero divisor counts as positive zero).
\<close>

datatype error = TypeError | IndexError | ValueError

datatype npfloat = Fin real | PInf | NInf | NaN

fun np_add :: "npfloat \<Rightarrow> npfloat \<Rightarrow> npfloat" where
  "np_add (Fin a) (Fin b) = Fin (a + b)"
| "np_add (Fin a) PInf = PInf"
| "np_add (Fin a) NInf = NInf"
| "np_add (Fin a) NaN = NaN"
| "np_add PInf (Fin b) = PInf"
| "np_add PInf PInf = PInf"
| "np_add PInf NInf = NaN"
| "np_add PInf NaN = NaN"
| "np_add NInf (Fin b) = NInf"
| "np_add NInf PInf = NaN"
| "np_add NInf NInf = NInf"
| "np_add NInf NaN = NaN"
| "np_add NaN b = NaN"

fun np_neg :: "npfloat \<Rightarrow> npfloat" where
  "np_neg (Fin a) = Fin (- a)"
| "np_neg PInf = NInf"
| "np_neg NInf = PInf"
| "np_neg NaN = NaN"

definition np_sub :: "npfloat \<Rightarrow> npfloat \<Rightarrow> npfloat" where
  "np_sub a b = np_add a (np_neg b)"

fun np_mul :: "npfloat \<Rightarrow> npfloat \<Rightarrow> npfloat" where
  "np_mul (Fin a) (Fin b) = Fin (a * b)"
| "np_mul (Fin a) PInf = (if 0 < a then PInf else if a < 0 then NInf else NaN)"
| "np_mul (Fin a) NInf = (if 0 < a then NInf else if a < 0 then PInf else NaN)"
| "np_mul (Fin a) NaN = NaN"
| "np_mul PInf (Fin b) = (if 0 < b then PInf else if b < 0 then NInf else NaN)"
| "np_mul PInf PInf = PInf"
| "np_mul PInf NInf = NInf"
| "np_mul PInf NaN = NaN"
| "np_mul NInf (Fin b) = (if 0 < b then NInf else if b < 0 then PInf else NaN)"
| "np_mul NInf PInf = NInf"
| "np_mul NInf NInf = PInf"
| "np_mul NInf NaN = NaN"
| "np_mul NaN b = NaN"

fun np_div :: "npfloat \<Rightarrow> npfloat \<Rightarrow> npfloat" where
  "np_div (Fin a) (Fin b) =
     (if b \<noteq> 0 then Fin (a / b)
      else if 0 < a then PInf else if a < 0 then NInf else NaN)"
| "np_div (Fin a) PInf = Fin 0"
| "np_div (Fin a) NInf = Fin 0"
| "np_div (Fin a) NaN = NaN"
| "np_div PInf (Fin b) = (if 0 \<le> b then PInf else NInf)"
| "np_div NInf (Fin b) = (if 0 \<le> b then NInf else PInf)"
| "np_div PInf b = NaN"
| "np_div NInf b = NaN"
| "np_div NaN b = NaN"

fun np_log :: "npfloat \<Rightarrow> npfloat" where
  "np_log (Fin x) = (if 0 < x then Fin (ln x) else if x = 0 then NInf else NaN)"
| "np_log PInf = PInf"
| "np_log NInf = NaN"
| "np_log NaN = NaN"

fun np_sqrt :: "npfloat \<Rightarrow> npfloat" where
  "np_sqrt (Fin x) = (if 0 \<le> x then Fin (sqrt x) else NaN)"
| "np_sqrt PInf = PInf"
| "np_sqrt NInf = NaN"
| "np_sqrt NaN = NaN"

text \<open>\<open>np.sum\<close> of an array of floating-point values; the sum of the empty array is 0.\<close>

fun np_sum :: "npfloat list \<Rightarrow> npfloat" where
  "np_sum [] = Fin 0"
| "np_sum (x # xs) = np_add x (np_sum xs)"

section \<open>Observation sets\<close>

text \<open>
  The \<open>data\<close> dictionary of the source, with the keys the modelled functions read.
  \<open>dflux\<close> is a one-dimensional array of symmetric uncertainties or a two-dimensional
  array with one row per point and two columns (\<open>np.rank(data['dflux'])>1\<close>).
  Arrays of fluxes, energies and uncertainties hold finite values.
\<close>

datatype errs = Sym "real list" | Asym "(real \<times> real) list"

record data =
  ene :: "real list"
  flux :: "real list"
  dflux :: errs
  ul :: "bool list"
  cl :: real

text \<open>
  Indexing an array with a boolean mask, \<open>a[mask]\<close>: the elements at the positions where
  the mask is true; a mask of another length is an IndexError.
\<close>

definition bool_index :: "'a list \<Rightarrow> bool list \<Rightarrow> error + 'a list" where
  "bool_index a m = (if length m \<noteq> length a then Inl IndexError
               else Inr (map snd (filter fst (zip m a))))"

section \<open>Likelihood\<close>

text \<open>
  Lines 65 to 76 of \<open>lnprobmodel\<close>: the array \<open>logprob\<close> of the points that are not
  upper limits. On a boolean array the unary minus of the numpy of this source is the
  logical negation, so \<open>notul = -ul\<close> is the complement of the mask, and \<open>1*-sign\<close> is 1
  where \<open>difference > 0\<close> is false. The arithmetic here is exact; the same lines in the
  range of double precision follow in the next section.
\<close>

definition logprob_array :: "real list \<Rightarrow> data \<Rightarrow> error + npfloat list" where
  "logprob_array model d =
     (let notul = map Not (ul d) in
      case bool_index model notul of Inl e \<Rightarrow> Inl e | Inr m \<Rightarrow>
      (case bool_index (flux d) notul of Inl e \<Rightarrow> Inl e | Inr f \<Rightarrow>
      (let difference = map2 (-) m f in
      case dflux d of
        Asym rows \<Rightarrow>
          (case bool_index rows notul of Inl e \<Rightarrow> Inl e | Inr r \<Rightarrow>
           let sign = map (\<lambda>x. 0 < x) difference;
               loerr = map (\<lambda>s. of_bool (\<not> s)) sign;
               hierr = map (\<lambda>s. of_bool s) sign;
               sigma = map2 (+) (map2 (*) loerr (map fst r)) (map2 (*) hierr (map snd r))
           in Inr (map2 (\<lambda>x s. np_div (Fin (- (x ^ 2))) (Fin (2 * s ^ 2))) difference sigma))
      | Sym errs \<Rightarrow>
          (case bool_index errs notul of Inl e \<Rightarrow> Inl e | Inr s \<Rightarrow>
           Inr (map2 (\<lambda>x s. np_div (Fin (- (x ^ 2))) (Fin (2 * s ^ 2))) difference s)))))"

definition lnprobmodel :: "real list \<Rightarrow> data \<Rightarrow> error + npfloat" where
  "lnprobmodel model d =
     (case logprob_array model d of Inl e \<Rightarrow> Inl e | Inr logprob \<Rightarrow>
      let totallogprob = np_sum logprob in
      if 0 < length (filter id (ul d)) then
        (case bool_index model (ul d) of Inl e \<Rightarrow> Inl e | Inr mu \<Rightarrow>
         (case bool_index (flux d) (ul d) of Inl e \<Rightarrow> Inl e | Inr fu \<Rightarrow>
          (let violated_uls = length (filter id (map2 (\<lambda>m f. f < m) mu fu))
           in Inr (np_add totallogprob
                     (np_mul (Fin (real violated_uls)) (np_log (Fin (1 - cl d))))))))
      else Inr totallogprob)"

section \<open>Likelihood in the range of double precision\<close>

text \<open>
  The same lines of \<open>lnprobmodel\<close> with the arithmetic of a number format: the result of
  an addition or subtraction and the result of a multiplication or division pass through
  the conversions of the format. In the format \<open>exact\<close> nothing happens to them, and
  the functions are \<open>logprob_array\<close> and \<open>lnprobmodel\<close> above. In the format
  \<open>f64\<close> a result of magnitude \<open>2\<^sup>1\<^sup>0\<^sup>2\<^sup>4 - 2\<^sup>9\<^sup>7\<^sup>0\<close> or more is an infinity, where
  the rounding of double precision overflows, and a product or quotient of magnitude
  \<open>2\<^sup>-\<^sup>1\<^sup>0\<^sup>7\<^sup>5\<close> or less is zero; sums and differences of doubles do not underflow.
  Rounding inside the range is not modelled. The products with the 0 and 1 of \<open>loerr\<close>
  and \<open>hierr\<close>, and their sum, are exact.
\<close>

record fmt =
  of_sum :: "real \<Rightarrow> npfloat"
  of_prod :: "real \<Rightarrow> npfloat"

definition exact :: fmt where
  "exact = \<lparr>of_sum = Fin, of_prod = Fin\<rparr>"

definition f64_huge :: real where
  "f64_huge = 2 ^ 1024 - 2 ^ 970"

definition f64_tiny :: real where
  "f64_tiny = 1 / 2 ^ 1075"

definition f64 :: fmt where
  "f64 = \<lparr>of_sum = (\<lambda>x. if f64_huge \<le> x then PInf else if x \<le> - f64_huge then NInf else Fin x),
          of_prod = (\<lambda>x. if f64_huge \<le> x then PInf else if x \<le> - f64_huge then NInf
                        else if \<bar>x\<bar> \<le> f64_tiny then Fin 0 else Fin x)\<rparr>"

fun fl_add :: "fmt \<Rightarrow> npfloat \<Rightarrow> npfloat \<Rightarrow> npfloat" where
  "fl_add F (Fin a) (Fin b) = of_sum F (a + b)"
| "fl_add F a b = np_add a b"

fun fl_mul :: "fmt \<Rightarrow> npfloat \<Rightarrow> npfloat \<Rightarrow> npfloat" where
  "fl_mul F (Fin a) (Fin b) = of_prod F (a * b)"
| "fl_mul F a b = np_mul a b"

fun fl_div :: "fmt \<Rightarrow> npfloat \<Rightarrow> npfloat \<Rightarrow> npfloat" where
  "fl_div F (Fin a) (Fin b) = (if b \<noteq> 0 then of_prod F (a / b) else np_div (Fin a) (Fin b))"
| "fl_div F a b = np_div a b"

fun np_gt :: "npfloat \<Rightarrow> npfloat \<Rightarrow> bool" where
  "np_gt (Fin a) (Fin b) = (b < a)"
| "np_gt (Fin a) NInf = True"
| "np_gt PInf (Fin b) = True"
| "np_gt PInf NInf = True"
| "np_gt a b = False"

fun fl_sum :: "fmt \<Rightarrow> npfloat list \<Rightarrow> npfloat" where
  "fl_sum F [] = Fin 0"
| "fl_sum F (x # xs) = fl_add F x (fl_sum F xs)"

definition logprob_array_fl :: "fmt \<Rightarrow> real list \<Rightarrow> data \<Rightarrow> error + npfloat list" where
  "logprob_array_fl F model d =
     (let notul = map Not (ul d) in
      case bool_index model notul of Inl e \<Rightarrow> Inl e | Inr m \<Rightarrow>
      (case bool_index (flux d) notul of Inl e \<Rightarrow> Inl e | Inr f \<Rightarrow>
      (let difference = map2 (\<lambda>a b. of_sum F (a - b)) m f in
      case dflux d of
        Asym rows \<Rightarrow>
          (case bool_index rows notul of Inl e \<Rightarrow> Inl e | Inr r \<Rightarrow>
           let sign = map (\<lambda>x. np_gt x (Fin 0)) difference;
               loerr = map (\<lambda>s. of_bool (\<not> s)) sign;
               hierr = map (\<lambda>s. of_bool s) sign;
               sigma = map2 (+) (map2 (*) loerr (map fst r)) (map2 (*) hierr (map snd r))
           in Inr (map2 (\<lambda>x s. fl_div F (np_neg (fl_mul F x x))
                                  (fl_mul F (Fin 2) (fl_mul F (Fin s) (Fin s))))
                     difference sigma))
      | Sym errs \<Rightarrow>
          (case bool_index errs notul of Inl e \<Rightarrow> Inl e | Inr s \<Rightarrow>
           Inr (map2 (\<lambda>x s. fl_div F (np_neg (fl_mul F x x))
                               (fl_mul F (Fin 2) (fl_mul F (Fin s) (Fin s))))
                  difference s)))))"

definition lnprobmodel_fl :: "fmt \<Rightarrow> real list \<Rightarrow> data \<Rightarrow> error + npfloat" where
  "lnprobmodel_fl F model d =
     (case logprob_array_fl F model d of Inl e \<Rightarrow> Inl e | Inr logprob \<Rightarrow>
      let totallogprob = fl_sum F logprob in
      if 0 < length (filter id (ul d)) then
        (case bool_index model (ul d) of Inl e \<Rightarrow> Inl e | Inr mu \<Rightarrow>
         (case bool_index (flux d) (ul d) of Inl e \<Rightarrow> Inl e | Inr fu \<Rightarrow>
          (let violated_uls = length (filter id (map2 (\<lambda>m f. f < m) mu fu))
           in Inr (fl_add F totallogprob
                     (fl_mul F (Fin (real violated_uls)) (np_log (of_sum F (1 - cl d))))))))
      else Inr totallogprob)"

section \<open>Priors\<close>

definition flatprior :: "npfloat list \<Rightarrow> error + npfloat" where
  "flatprior pars = Inr (Fin 0)"

definition uniform_prior :: "real \<Rightarrow> real \<Rightarrow> real \<Rightarrow> npfloat" where
  "uniform_prior v umin umax = (if umin \<le> v \<and> v \<le> umax then Fin 0 else NInf)"

text \<open>
  \<open>- 0.5 * (2 * np.pi * sigma) - (value - mean) ** 2 / (2. * sigma)\<close>, on finite
  arguments.
\<close>

definition normal_prior :: "real \<Rightarrow> real \<Rightarrow> real \<Rightarrow> npfloat" where
  "normal_prior v mean sigma =
     np_sub (Fin (- 0.5 * (2 * pi * sigma))) (np_div (Fin ((v - mean) ^ 2)) (Fin (2 * sigma)))"

section \<open>Posterior function\<close>

text \<open>
  An element of a blob is a sequence of arrays (a two-dimensional array, or a tuple of
  arrays) or some other payload, which the program does not look into. A model evaluator
  returns a bare flux array or a tuple of a flux array and further elements; evaluators
  and priors are parameters and may raise.
\<close>

datatype 'x pyval = Rows "real list list" | Opaque 'x

datatype 'x modelout = Bare "real list" | Tuple "real list" "'x pyval list"

text \<open>What the program prints, one value per line.\<close>

datatype out_line =
    Text string
  | Progress "npfloat list" npfloat
  | Burning nat
  | MAP_par npfloat npfloat

type_synonym 'x modelfunc = "npfloat list \<Rightarrow> data \<Rightarrow> error + 'x modelout"

type_synonym priorfunc = "npfloat list \<Rightarrow> error + npfloat"

type_synonym 'x lnprob_result = "(error + npfloat \<times> 'x pyval list) \<times> out_line list"

definition lnprob ::
  "npfloat list \<Rightarrow> data \<Rightarrow> 'x modelfunc \<Rightarrow> priorfunc \<Rightarrow> 'x lnprob_result" where
  "lnprob pars d modelfunc priorfunc =
     (case modelfunc pars d of Inl e \<Rightarrow> (Inl e, []) | Inr modelout \<Rightarrow>
      (let (model, blob) =
             (case modelout of
                Tuple m extra \<Rightarrow> (m, extra)
              | Bare m \<Rightarrow> (m, [Rows [ene d, m]]))
       in case lnprobmodel model d of Inl e \<Rightarrow> (Inl e, []) | Inr lnprob_model \<Rightarrow>
          (case priorfunc pars of Inl e \<Rightarrow> (Inl e, []) | Inr lnprob_priors \<Rightarrow>
           (let total_lnprob = np_add lnprob_model lnprob_priors
            in (Inr (total_lnprob, blob), [Progress pars total_lnprob])))))"

section \<open>Indexing and integration\<close>

text \<open>Indexing a Python sequence with an integer: a negative index counts from the end.\<close>

definition py_index :: "'a list \<Rightarrow> int \<Rightarrow> error + 'a" where
  "py_index xs k =
     (if 0 \<le> k \<and> k < int (length xs) then Inr (xs ! nat k)
      else if k < 0 \<and> - int (length xs) \<le> k then Inr (xs ! nat (int (length xs) + k))
      else Inl IndexError)"

text \<open>\<open>blob[k][j]\<close>: array \<open>j\<close> of element \<open>k\<close> of a blob.\<close>

definition blob_row :: "'x pyval list \<Rightarrow> nat \<Rightarrow> nat \<Rightarrow> error + real list" where
  "blob_row blob k j =
     (case py_index blob (int k) of Inl e \<Rightarrow> Inl e
      | Inr (Opaque x) \<Rightarrow> Inl TypeError
      | Inr (Rows rows) \<Rightarrow> py_index rows (int j))"

text \<open>The first error of a loop ends it.\<close>

fun collect :: "('a \<Rightarrow> error + 'b) \<Rightarrow> 'a list \<Rightarrow> error + 'b list" where
  "collect f [] = Inr []"
| "collect f (x # xs) =
     (case f x of Inl e \<Rightarrow> Inl e
      | Inr y \<Rightarrow> (case collect f xs of Inl e \<Rightarrow> Inl e | Inr ys \<Rightarrow> Inr (y # ys)))"

text \<open>
  \<open>np.trapz(y, x)\<close>: the sum of \<open>diff(x) * (y[1:] + y[:-1]) / 2\<close>. The product is
  numpy's elementwise product: equal lengths, or one operand of length one, which is
  repeated; other lengths are a ValueError.
\<close>

definition diff :: "real list \<Rightarrow> real list" where
  "diff x = map2 (\<lambda>a b. b - a) (butlast x) (tl x)"

definition np_times :: "real list \<Rightarrow> real list \<Rightarrow> error + real list" where
  "np_times a b =
     (if length a = length b then Inr (map2 (*) a b)
      else if length a = 1 then Inr (map (\<lambda>y. hd a * y) b)
      else if length b = 1 then Inr (map (\<lambda>x. x * hd b) a)
      else Inl ValueError)"

definition trapz :: "real list \<Rightarrow> real list \<Rightarrow> error + real" where
  "trapz y x =
     (case np_times (diff x) (map2 (+) (tl y) (butlast y)) of Inl e \<Rightarrow> Inl e
      | Inr p \<Rightarrow> Inr (sum_list (map (\<lambda>v. v / 2) p)))"

section \<open>Sampler set-up\<close>

text \<open>
  The sampler object of the ensemble-sampler library, with the attributes the program
  reads and the \<open>data\<close> attribute it sets. \<open>blobs\<close> is indexed by step and walker,
  \<open>flatchain\<close> holds one parameter vector of length \<open>dim\<close> per row.
\<close>

record 'x sampler =
  blobs :: "'x pyval list list list"
  flatchain :: "npfloat list list"
  dim :: nat
  lnprobfn :: "npfloat list \<Rightarrow> 'x lnprob_result"
  sdata :: "data option"

text \<open>
  The library itself is a parameter: the constructor, the initial ball of walkers and a
  run of the chain, each of which may raise; a run prints what its evaluations print.
\<close>

record ('x, 'w) emcee =
  EnsembleSampler ::
    "nat \<Rightarrow> nat \<Rightarrow> (npfloat list \<Rightarrow> 'x lnprob_result) \<Rightarrow> nat \<Rightarrow> error + 'x sampler"
  sample_ball :: "npfloat list \<Rightarrow> npfloat list \<Rightarrow> nat \<Rightarrow> error + 'w"
  run_mcmc :: "'x sampler \<Rightarrow> 'w \<Rightarrow> nat \<Rightarrow> (error + 'x sampler \<times> 'w) \<times> out_line list"

text \<open>
  Parameter arrays are objects: a store maps a reference to the array it holds, and the
  module-level array \<open>p00\<close> is the default of the argument \<open>p0\<close>.
\<close>

type_synonym store = "nat \<Rightarrow> npfloat list"

definition p00 :: nat where
  "p00 = 0"

definition module_store :: store where
  "module_store = (\<lambda>r. [])(p00 := [Fin 2, Fin (1 / 10 ^ 11), Fin 10, Fin 1])"

text \<open>
  Lines 121 to 125 of \<open>get_sampler\<close>. The augmented assignment \<open>p0[1]*=...\<close> reads
  \<open>p0[1]\<close>, evaluates the right-hand side and writes into the array object.
\<close>

definition guess_norm ::
  "nat \<Rightarrow> data \<Rightarrow> 'x modelfunc \<Rightarrow> priorfunc \<Rightarrow> store
     \<Rightarrow> (error + unit) \<times> out_line list \<times> store" where
  "guess_norm p0 d model prior st =
     (case lnprob (st p0) d model prior of
        (Inl e, out) \<Rightarrow> (Inl e, out, st)
      | (Inr (lp, blob), out) \<Rightarrow>
         (case blob_row blob 0 0 of Inl e \<Rightarrow> (Inl e, out, st) | Inr ene' \<Rightarrow>
          (case blob_row blob 0 1 of Inl e \<Rightarrow> (Inl e, out, st) | Inr spec \<Rightarrow>
           (case py_index (st p0) 1 of Inl e \<Rightarrow> (Inl e, out, st) | Inr p1 \<Rightarrow>
            (case trapz (flux d) (ene d) of Inl e \<Rightarrow> (Inl e, out, st) | Inr a \<Rightarrow>
             (case trapz spec ene' of Inl e \<Rightarrow> (Inl e, out, st) | Inr b \<Rightarrow>
              (Inr (), out,
               st(p0 := (st p0)[1 := np_mul p1 (np_div (Fin a) (Fin b))]))))))))"

definition get_sampler ::
  "('x, 'w) emcee \<Rightarrow> nat \<Rightarrow> nat \<Rightarrow> bool \<Rightarrow> nat option \<Rightarrow> data option
     \<Rightarrow> 'x modelfunc \<Rightarrow> priorfunc \<Rightarrow> nat \<Rightarrow> store
     \<Rightarrow> (error + 'x sampler \<times> 'w) \<times> out_line list \<times> store" where
  "get_sampler lib nwalkers nburn guess p0_arg data_arg model prior threads st =
     (case data_arg of
        None \<Rightarrow> (Inl TypeError, [Text ''Need to provide data!''], st)
      | Some d \<Rightarrow>
         (let p0 = (case p0_arg of None \<Rightarrow> p00 | Some r \<Rightarrow> r);
              (res, out, st') =
                (if guess then guess_norm p0 d model prior st else (Inr (), [], st))
          in case res of Inl e \<Rightarrow> (Inl e, out, st') | Inr u \<Rightarrow>
             (let ndim = length (st' p0) in
              case EnsembleSampler lib nwalkers ndim (\<lambda>p. lnprob p d model prior) threads of
                Inl e \<Rightarrow> (Inl e, out, st')
              | Inr sampler \<Rightarrow>
                 (let sampler = sampler\<lparr>sdata := Some d\<rparr>;
                      p0var = map (\<lambda>pp. np_div pp (Fin 10)) (st' p0)
                  in case sample_ball lib (st' p0) p0var nwalkers of
                       Inl e \<Rightarrow> (Inl e, out, st')
                     | Inr ball \<Rightarrow>
                        (case run_mcmc lib sampler ball nburn of
                           (Inl e, out2) \<Rightarrow> (Inl e, out @ [Burning nburn] @ out2, st')
                         | (Inr (s', pos), out2) \<Rightarrow>
                            (Inr (s', pos), out @ [Burning nburn] @ out2, st'))))))"

section \<open>Confidence bands and the curve at the mean parameters\<close>

text \<open>\<open>int(r)\<close> truncates towards zero.\<close>

definition py_int :: "real \<Rightarrow> int" where
  "py_int r = (if 0 \<le> r then \<lfloor>r\<rfloor> else \<lceil>r\<rceil>)"

text \<open>
  \<open>model[:,i]\<close>: column \<open>i\<close> of the array made of the walkers' curves, which is
  two-dimensional when the curves have one length.
\<close>

definition column :: "real list list \<Rightarrow> nat \<Rightarrow> error + real list" where
  "column model i =
     (if model \<noteq> [] \<and> (\<forall>c \<in> set model. length c = length (hd model)) \<and> i < length (hd model)
      then Inr (map (\<lambda>c. c ! i) model) else Inl IndexError)"

text \<open>Lines 304 to 309: one quantile fraction, over the points of the energy grid.\<close>

definition quantile_curve :: "real list list \<Rightarrow> real list \<Rightarrow> real \<Rightarrow> error + real list" where
  "quantile_curve model modelx fr =
     (let nwalkers = length model; nf = py_int (fr * real nwalkers)
      in collect (\<lambda>i. case column model i of Inl e \<Rightarrow> Inl e
                     | Inr col \<Rightarrow> py_index (sort col) nf) [0..<length modelx])"

text \<open>
  Lines 299 to 310: the band of one confidence level. The normal distribution function
  \<open>stats.norm.cdf\<close> of the statistics library is the parameter \<open>cdf\<close>.
\<close>

definition conf_band ::
  "(real \<Rightarrow> real) \<Rightarrow> real list list \<Rightarrow> real list \<Rightarrow> real \<Rightarrow> error + real list \<times> real list" where
  "conf_band cdf model modelx conf =
     (let fmin = cdf (- conf); fmax = cdf conf
      in case quantile_curve model modelx fmin of Inl e \<Rightarrow> Inl e | Inr ymin \<Rightarrow>
         (case quantile_curve model modelx fmax of Inl e \<Rightarrow> Inl e | Inr ymax \<Rightarrow>
          Inr (ymin, ymax)))"

text \<open>\<open>np.mean\<close> and \<open>np.std\<close> of one column of the flattened chain.\<close>

definition np_mean :: "npfloat list \<Rightarrow> npfloat" where
  "np_mean xs = np_div (np_sum xs) (Fin (real (length xs)))"

definition np_std :: "npfloat list \<Rightarrow> npfloat" where
  "np_std xs =
     np_sqrt (np_mean (map (\<lambda>x. np_mul (np_sub x (np_mean xs)) (np_sub x (np_mean xs))) xs))"

definition flatchain_T :: "'x sampler \<Rightarrow> npfloat list list" where
  "flatchain_T s = map (\<lambda>j. map (\<lambda>row. row ! j) (flatchain s)) [0..<dim s]"

definition MAPp :: "'x sampler \<Rightarrow> npfloat list" where
  "MAPp s = map np_mean (flatchain_T s)"

definition calc_fit_CI ::
  "(real \<Rightarrow> real) \<Rightarrow> 'x sampler \<Rightarrow> nat \<Rightarrow> real list \<Rightarrow> bool
     \<Rightarrow> (error + real list \<times> (real list \<times> real list) list \<times> real list) \<times> out_line list" where
  "calc_fit_CI cdf s modelidx confs last_step =
     (case py_index (blobs s) (- 1) of Inl e \<Rightarrow> (Inl e, []) | Inr final \<Rightarrow>
      (case collect (\<lambda>m. blob_row m modelidx 1) (if last_step then final else concat (blobs s)) of
         Inl e \<Rightarrow> (Inl e, [])
       | Inr model \<Rightarrow>
      (case py_index final 0 of Inl e \<Rightarrow> (Inl e, []) | Inr first \<Rightarrow>
      (case blob_row first modelidx 0 of Inl e \<Rightarrow> (Inl e, []) | Inr modelx \<Rightarrow>
      (case collect (conf_band cdf model modelx) confs of Inl e \<Rightarrow> (Inl e, []) | Inr CI \<Rightarrow>
      (let MAPvar = map np_std (flatchain_T s) in
       case lnprobfn s (MAPp s) of (Inl e, out) \<Rightarrow> (Inl e, out)
       | (Inr (lp, blob), out) \<Rightarrow>
          (case blob_row blob modelidx 1 of Inl e \<Rightarrow> (Inl e, out)
           | Inr model_MAP \<Rightarrow>
              (Inr (modelx, CI, model_MAP),
               out @ [Text ''MAP pars (mean, std):''] @ map2 MAP_par (MAPp s) MAPvar))))))))"

section \<open>Notions of the specification\<close>

text \<open>
  The arrays of an observation set are index-aligned: the model and every array of the
  set have the length of the upper-limit flags.
\<close>

definition shapes_ok :: "real list \<Rightarrow> data \<Rightarrow> bool" where
  "shapes_ok model d \<longleftrightarrow>
     length model = length (ul d) \<and> length (flux d) = length (ul d) \<and>
     (case dflux d of Sym e \<Rightarrow> length e = length (ul d)
      | Asym r \<Rightarrow> length r = length (ul d))"

definition nonul_points :: "data \<Rightarrow> nat list" where
  "nonul_points d = filter (\<lambda>i. \<not> ul d ! i) [0..<length (ul d)]"

definition ul_points :: "data \<Rightarrow> nat list" where
  "ul_points d = filter (\<lambda>i. ul d ! i) [0..<length (ul d)]"

definition difference_at :: "real list \<Rightarrow> data \<Rightarrow> nat \<Rightarrow> real" where
  "difference_at model d i = model ! i - flux d ! i"

text \<open>
  The uncertainty of a point: with two columns, the second (upper-error) column where the
  model lies above the observed flux and the first (lower-error) column elsewhere.
\<close>

definition sigma_at :: "real list \<Rightarrow> data \<Rightarrow> nat \<Rightarrow> real" where
  "sigma_at model d i =
     (case dflux d of Sym e \<Rightarrow> e ! i
      | Asym r \<Rightarrow> if 0 < difference_at model d i then snd (r ! i) else fst (r ! i))"

definition gauss_term :: "real \<Rightarrow> real \<Rightarrow> real" where
  "gauss_term difference sigma = - (difference ^ 2) / (2 * sigma ^ 2)"

definition violated :: "real list \<Rightarrow> data \<Rightarrow> nat list" where
  "violated model d = filter (\<lambda>i. flux d ! i < model ! i) (ul_points d)"

text \<open>\<open>np.median\<close> of an array, as the source uses it on a parameter's distribution.\<close>

definition np_median :: "real list \<Rightarrow> npfloat" where
  "np_median xs =
     (let s = sort xs; n = length xs
      in if n = 0 then NaN
         else if odd n then Fin (s ! (n div 2))
         else Fin ((s ! (n div 2 - 1) + s ! (n div 2)) / 2))"

text \<open>
  An ensemble of curves for an energy grid: at least one curve, all of one length, which
  covers the grid.
\<close>

definition ensemble_ok :: "real list list \<Rightarrow> real list \<Rightarrow> bool" where
  "ensemble_ok model modelx \<longleftrightarrow>
     model \<noteq> [] \<and> (\<forall>c \<in> set model. length c = length (hd model)) \<and>
     length modelx \<le> length (hd model)"

text \<open>
  A function with the properties of the normal distribution function that the proofs use:
  the value 1/2 at 0, monotone, between 0 and 1. It stands for \<open>stats.norm.cdf\<close> in
  closed examples.
\<close>

definition cdf_standin :: "real \<Rightarrow> real" where
  "cdf_standin x = 1 / 2 + x / (2 * (1 + \<bar>x\<bar>))"

text \<open>
  In double precision \<open>stats.norm.cdf\<close> returns exactly 1 for large arguments (from about
  8.3 on). The stand-in with that property, 1 from 9 on, for closed examples.
\<close>

definition cdf_saturating :: "real \<Rightarrow> real" where
  "cdf_saturating x = (if 9 \<le> x then 1 else cdf_standin x)"

text \<open>Column \<open>i\<close> of an ensemble and the order statistic of rank \<open>k\<close> (from 0).\<close>

definition values_at :: "real list list \<Rightarrow> nat \<Rightarrow> real list" where
  "values_at model i = map (\<lambda>c. c ! i) model"

definition order_stat :: "real list \<Rightarrow> nat \<Rightarrow> real" where
  "order_stat xs k = sort xs ! k"

text \<open>The flux array of what a model evaluator returns.\<close>

fun flux_array :: "'x modelout \<Rightarrow> real list" where
  "flux_array (Bare m) = m"
| "flux_array (Tuple m extra) = m"

section \<open>Properties of the likelihood\<close>

lemma zip_idx: "length m = length a \<Longrightarrow> zip m a = map (\<lambda>i. (m ! i, a ! i)) [0..<length a]"
  by (rule nth_equalityI) auto

lemma bool_index_nth:
  "length m = length a \<Longrightarrow> bool_index a m = Inr (map ((!) a) (filter ((!) m) [0..<length a]))"
  by (simp add: bool_index_def zip_idx filter_map o_def)

lemma bool_index_ul:
  "length a = length (ul d) \<Longrightarrow> bool_index a (ul d) = Inr (map ((!) a) (ul_points d))"
  by (simp add: bool_index_nth ul_points_def)

lemma filter_Not_idx: "filter ((!) (map Not u)) [0..<length u] = filter (\<lambda>i. \<not> u ! i) [0..<length u]"
  by (rule filter_cong) auto

lemma bool_index_notul:
  "length a = length (ul d) \<Longrightarrow> bool_index a (map Not (ul d)) = Inr (map ((!) a) (nonul_points d))"
  using filter_Not_idx [of "ul d"] by (simp add: bool_index_nth nonul_points_def)


lemma asym_core:
  fixes f g :: "nat \<Rightarrow> real" and r :: "nat \<Rightarrow> real \<times> real"
  shows "map2 H (map2 (-) (map f idx) (map g idx))
     (map2 (+)
        (map2 (*) (map (\<lambda>s. of_bool (\<not> s)) (map (\<lambda>x. 0 < x) (map2 (-) (map f idx) (map g idx))))
           (map fst (map r idx)))
        (map2 (*) (map (\<lambda>s. of_bool s) (map (\<lambda>x. 0 < x) (map2 (-) (map f idx) (map g idx))))
           (map snd (map r idx))))
   = map (\<lambda>i. H (f i - g i) (if 0 < f i - g i then snd (r i) else fst (r i))) idx"
  by (induction idx) simp_all

lemma sym_core:
  fixes f g e :: "nat \<Rightarrow> real"
  shows "map2 H (map2 (-) (map f idx) (map g idx)) (map e idx)
   = map (\<lambda>i. H (f i - g i) (e i)) idx"
  by (induction idx) simp_all

lemma logprob_array_points:
  assumes "shapes_ok model d"
  shows "logprob_array model d =
    Inr (map (\<lambda>i. np_div (Fin (- (difference_at model d i ^ 2))) (Fin (2 * sigma_at model d i ^ 2)))
           (nonul_points d))"
proof -
  from assms have len: "length model = length (ul d)" "length (flux d) = length (ul d)"
    by (simp_all add: shapes_ok_def)
  show ?thesis
  proof (cases "dflux d")
    case (Sym e)
    with assms have "length e = length (ul d)" by (simp add: shapes_ok_def)
    then show ?thesis
      unfolding logprob_array_def Let_def
      by (simp only: Sym errs.case bool_index_notul len sum.case sym_core
          difference_at_def sigma_at_def)
  next
    case (Asym r)
    with assms have lr: "length r = length (ul d)" by (simp add: shapes_ok_def)
    show ?thesis
      unfolding logprob_array_def Let_def
      by (simp only: Asym errs.case bool_index_notul len lr sum.case asym_core
          difference_at_def sigma_at_def)
  qed
qed


lemma filter_idx: "filter P xs = map ((!) xs) (filter (\<lambda>i. P (xs ! i)) [0..<length xs])"
proof -
  have "filter P (map ((!) xs) [0..<length xs]) = map ((!) xs) (filter (\<lambda>i. P (xs ! i)) [0..<length xs])"
    by (simp add: filter_map o_def)
  then show ?thesis by (simp add: map_nth)
qed

lemma count_ul: "length (filter id (ul d)) = length (ul_points d)"
  using filter_idx [of id "ul d"] by (simp add: ul_points_def)

lemma count_violated:
  "length (filter (\<lambda>(x, y). y < x) (zip (map ((!) model) idx) (map ((!) fl) idx)))
     = length (filter (\<lambda>i. fl ! i < model ! i) idx)"
  by (induction idx) simp_all

lemma lnprobmodel_eq:
  assumes "shapes_ok model d" and "logprob_array model d = Inr lp"
  shows "lnprobmodel model d =
    Inr (if ul_points d = [] then np_sum lp
         else np_add (np_sum lp)
                (np_mul (Fin (real (length (violated model d)))) (np_log (Fin (1 - cl d)))))"
proof -
  from assms have len: "length model = length (ul d)" "length (flux d) = length (ul d)"
    by (simp_all add: shapes_ok_def)
  show ?thesis
    unfolding lnprobmodel_def Let_def
    by (simp add: assms(2) count_ul bool_index_ul len count_violated violated_def
        del: np_add.simps np_mul.simps np_log.simps)
qed




text \<open>
  Claim C2. For index-aligned arrays the log-likelihood is the sum over the points that are
  not upper limits, plus, when the set has upper limits, the number of upper limits with
  \<open>model > flux\<close> times \<open>log(1 - cl)\<close>, which is the real logarithm when
  \<open>cl < 1\<close>. Without upper limits the term is absent and the result does not depend on
  the confidence level.
\<close>

theorem lnprobmodel_upper_limit_term:
  assumes "shapes_ok model d"
  shows "(\<exists>lp. logprob_array model d = Inr lp \<and>
      lnprobmodel model d =
        Inr (if ul_points d = [] then np_sum lp
             else np_add (np_sum lp)
               (np_mul (Fin (real (length (violated model d)))) (np_log (Fin (1 - cl d)))))) \<and>
    (cl d < 1 \<longrightarrow>
      np_mul (Fin (real (length (violated model d)))) (np_log (Fin (1 - cl d)))
        = Fin (real (length (violated model d)) * ln (1 - cl d))) \<and>
    (ul_points d = [] \<longrightarrow> (\<forall>c. lnprobmodel model (d\<lparr>cl := c\<rparr>) = lnprobmodel model d))"
proof -
  obtain lp where lp: "logprob_array model d = Inr lp"
    using logprob_array_points [OF assms] by blast
  have inv: "lnprobmodel model (d\<lparr>cl := c\<rparr>) = lnprobmodel model d" if "ul_points d = []" for c
  proof -
    have s: "shapes_ok model (d\<lparr>cl := c\<rparr>)" using assms by (simp add: shapes_ok_def split: errs.splits)
    have "logprob_array model (d\<lparr>cl := c\<rparr>) = logprob_array model d"
      by (simp add: logprob_array_def Let_def cong: sum.case_cong errs.case_cong)
    with lp have l: "logprob_array model (d\<lparr>cl := c\<rparr>) = Inr lp"
      by simp
    have u: "ul_points (d\<lparr>cl := c\<rparr>) = []" using that by (simp add: ul_points_def)
    show ?thesis
      using lnprobmodel_eq [OF s l] lnprobmodel_eq [OF assms lp] u that by simp
  qed
  show ?thesis
    using lp lnprobmodel_eq [OF assms lp] inv by simp
qed

text \<open>
  The theorem at a set with two upper limits, one of them violated, and at a set without
  upper limits whose confidence level changes from 1/2 to 7.
\<close>

theorem lnprobmodel_upper_limit_term_witness:
  "lnprobmodel [2, 0, 5, 0] \<lparr>ene = [1, 2, 3, 4], flux = [1, 1, 1, 1], dflux = Sym [1, 1, 1, 1],
      ul = [False, False, True, True], cl = 1 / 2\<rparr> = Inr (Fin (- 1 + ln (1 / 2))) \<and>
   lnprobmodel [2, 0] \<lparr>ene = [1, 2], flux = [1, 1], dflux = Sym [1, 1],
      ul = [False, False], cl = 7\<rparr>
     = lnprobmodel [2, 0] \<lparr>ene = [1, 2], flux = [1, 1], dflux = Sym [1, 1],
      ul = [False, False], cl = 1 / 2\<rparr>"
proof -
  let ?d1 = "\<lparr>ene = [1, 2, 3, 4], flux = [1, 1, 1, 1], dflux = Sym [1, 1, 1, 1],
        ul = [False, False, True, True], cl = 1 / 2\<rparr>"
  let ?d2 = "\<lparr>ene = [1, 2], flux = [1, 1], dflux = Sym [1, 1], ul = [False, False],
        cl = 1 / 2\<rparr>"
  have s1: "shapes_ok [2, 0, 5, 0] ?d1" and s2: "shapes_ok [2, 0] ?d2"
    by (simp_all add: shapes_ok_def)
  have "lnprobmodel [2, 0, 5, 0] ?d1 = Inr (Fin (- 1 + ln (1 / 2)))"
    using lnprobmodel_upper_limit_term [OF s1]
    by (simp add: ul_points_def violated_def logprob_array_def bool_index_def
        upt_rec [of 0] upt_rec [of 1] upt_rec [of 2] upt_rec [of 3])
  moreover have "\<forall>c. lnprobmodel [2, 0] (?d2\<lparr>cl := c\<rparr>) = lnprobmodel [2, 0] ?d2"
    using lnprobmodel_upper_limit_term [OF s2]
    by (simp add: ul_points_def upt_rec [of 0] upt_rec [of 1])
  then have "lnprobmodel [2, 0] (?d2\<lparr>cl := 7\<rparr>) = lnprobmodel [2, 0] ?d2"
    by (rule spec)
  ultimately show ?thesis by simp
qed

section \<open>Finiteness in the range of double precision\<close>

text \<open>The exact format gives the functions of the likelihood section.\<close>

lemma fl_add_exact: "fl_add exact a b = np_add a b"
  by (cases a; cases b) (simp_all add: exact_def)

lemma fl_mul_exact: "fl_mul exact a b = np_mul a b"
  by (cases a; cases b) (simp_all add: exact_def)

lemma fl_div_exact: "fl_div exact a b = np_div a b"
  by (cases a; cases b) (simp_all add: exact_def)

lemma fl_sum_exact: "fl_sum exact xs = np_sum xs"
  by (induction xs) (simp_all add: fl_add_exact)

lemma exact_core_sym:
  "map2 (\<lambda>x s. fl_div exact (np_neg (fl_mul exact x x))
                  (fl_mul exact (Fin 2) (fl_mul exact (Fin s) (Fin s))))
      (map2 (\<lambda>a b. of_sum exact (a - b)) m f) e
   = map2 (\<lambda>x s. np_div (Fin (- (x ^ 2))) (Fin (2 * s ^ 2))) (map2 (-) m f) e"
proof (induction m arbitrary: f e)
  case Nil
  show ?case by simp
next
  case (Cons a m)
  show ?case
  proof (cases f)
    case Nil
    then show ?thesis by simp
  next
    case f: (Cons b f')
    show ?thesis
    proof (cases e)
      case Nil
      then show ?thesis by simp
    next
      case (Cons c e')
      then show ?thesis
        using Cons.IH [of f' e']
        by (simp add: f exact_def power2_eq_square)
    qed
  qed
qed

lemma exact_sign:
  "map (\<lambda>x. np_gt x (Fin 0)) (map2 (\<lambda>a b. of_sum exact (a - b)) m f)
     = map (\<lambda>x. 0 < x) (map2 (-) m f)"
proof (induction m arbitrary: f)
  case Nil
  show ?case by simp
next
  case (Cons a m)
  then show ?case by (cases f) (simp_all add: exact_def)
qed

lemma logprob_array_exact: "logprob_array_fl exact model d = logprob_array model d"
  unfolding logprob_array_fl_def logprob_array_def Let_def
  by (simp only: exact_core_sym exact_sign)

lemma of_sum_exact: "of_sum exact x = Fin x"
  by (simp add: exact_def)

lemma lnprobmodel_exact: "lnprobmodel_fl exact model d = lnprobmodel model d"
  unfolding lnprobmodel_fl_def lnprobmodel_def Let_def
  by (simp only: logprob_array_exact fl_sum_exact fl_add_exact fl_mul_exact of_sum_exact)


lemma huge_gt: "2 ^ 1000 < f64_huge" "2 ^ 64 * 1000 + 2 ^ 1000 < f64_huge" "0 < f64_huge"
  by (simp_all add: f64_huge_def)

lemma tiny_lt: "f64_tiny < 1 / 2 ^ 1000" "0 < f64_tiny"
  by (simp_all add: f64_tiny_def)

lemma of_sum_f64_in:
  assumes "- (2 ^ 64 * 1000 + 2 ^ 1000) \<le> y" and "y \<le> 2 ^ 64 * 1000 + 2 ^ 1000"
  shows "of_sum f64 y = Fin y"
  using assms huge_gt by (simp add: f64_def)

lemma of_prod_f64_neg:
  assumes "- (2 ^ 1000) \<le> y" and "y \<le> 0"
  shows "\<exists>t. of_prod f64 y = Fin t \<and> y \<le> t \<and> t \<le> 0"
  using assms huge_gt by (simp add: f64_def)

lemma of_prod_f64_nonneg:
  assumes "0 \<le> y" and "y \<le> 2 ^ 1000"
  shows "\<exists>q. of_prod f64 y = Fin q \<and> 0 \<le> q \<and> q \<le> y"
  using assms huge_gt by (simp add: f64_def)

lemma of_prod_f64_pos:
  assumes "1 / 2 ^ 1000 \<le> y"
  shows "of_prod f64 y = PInf \<or> of_prod f64 y = Fin y"
  using assms huge_gt tiny_lt by (simp add: f64_def)

lemma of_prod_f64_abs:
  assumes "\<bar>y\<bar> \<le> 2 ^ 64 * 1000"
  shows "\<exists>u. of_prod f64 y = Fin u \<and> \<bar>u\<bar> \<le> 2 ^ 64 * 1000"
  using assms huge_gt by (auto simp add: f64_def)


lemma term_f64:
  assumes x: "\<bar>x\<bar> \<le> 2 ^ 500" and sg: "1 / 2 ^ 500 \<le> \<bar>sg\<bar>"
    and g: "- (2 ^ 1000) \<le> gauss_term x sg"
  shows "\<exists>t. fl_div f64 (np_neg (fl_mul f64 (Fin x) (Fin x)))
               (fl_mul f64 (Fin 2) (fl_mul f64 (Fin sg) (Fin sg))) = Fin t \<and>
             gauss_term x sg \<le> t \<and> t \<le> 0"
proof -
  have gle: "gauss_term x sg \<le> 0" by (simp add: gauss_term_def)
  have "\<bar>x\<bar> ^ 2 \<le> (2 ^ 500) ^ 2" using x by (intro power_mono) simp_all
  then have xx: "x * x \<le> 2 ^ 1000" by (simp add: power2_eq_square)
  have "0 \<le> x * x" by simp
  from of_prod_f64_nonneg [OF this xx]
  obtain q where q: "of_prod f64 (x * x) = Fin q" "0 \<le> q" "q \<le> x * x" by blast
  have "(1 / 2 ^ 500) ^ 2 \<le> \<bar>sg\<bar> ^ 2" using sg by (intro power_mono) simp_all
  then have ss: "1 / 2 ^ 1000 \<le> sg * sg" by (simp add: power2_eq_square power_divide)
  moreover have "(0::real) < 1 / 2 ^ 1000" by simp
  ultimately have sspos: "0 < sg * sg" by linarith
  have num: "fl_mul f64 (Fin x) (Fin x) = Fin q" using q by simp
  consider (inf) "fl_mul f64 (Fin 2) (fl_mul f64 (Fin sg) (Fin sg)) = PInf"
    | (fin) "fl_mul f64 (Fin 2) (fl_mul f64 (Fin sg) (Fin sg)) = Fin (2 * (sg * sg))"
  proof -
    have s2: "1 / 2 ^ 1000 \<le> 2 * (sg * sg)" using ss sspos by linarith
    show ?thesis
      using of_prod_f64_pos [OF ss] of_prod_f64_pos [OF s2] that by auto
  qed
  then show ?thesis
  proof cases
    case inf
    then show ?thesis using num gle by simp
  next
    case fin
    have den: "2 * (sg * sg) \<noteq> 0" using sspos by linarith
    have e: "gauss_term x sg = - (x * x) / (2 * (sg * sg))"
      by (simp add: gauss_term_def power2_eq_square)
    have lo: "gauss_term x sg \<le> - q / (2 * (sg * sg))"
      unfolding e using q(3) sspos by (simp add: divide_le_cancel)
    have hi: "- q / (2 * (sg * sg)) \<le> 0"
      using q(2) sspos by (simp add: divide_nonpos_pos)
    from lo g have "- (2 ^ 1000) \<le> - q / (2 * (sg * sg))" by linarith
    from of_prod_f64_neg [OF this hi]
    obtain t where t: "of_prod f64 (- q / (2 * (sg * sg))) = Fin t"
      "- q / (2 * (sg * sg)) \<le> t" "t \<le> 0" by blast
    show ?thesis
      using num fin den t lo by simp
  qed
qed

lemma fl_sum_f64:
  assumes "\<forall>i\<in>set idx. \<exists>t. T i = Fin t \<and> g i \<le> t \<and> t \<le> 0"
    and "- (2 ^ 1000) \<le> sum_list (map g idx)"
  shows "\<exists>S. fl_sum f64 (map T idx) = Fin S \<and> sum_list (map g idx) \<le> S \<and> S \<le> 0"
  using assms
proof (induction idx)
  case Nil
  show ?case by simp
next
  case (Cons i idx)
  from Cons.prems(1) obtain t where t: "T i = Fin t" "g i \<le> t" "t \<le> 0" by auto
  have gi: "g i \<le> 0" using t by linarith
  have rest: "- (2 ^ 1000) \<le> sum_list (map g idx)" using Cons.prems(2) gi by simp
  from Cons.IH [OF _ rest] Cons.prems(1)
  obtain S where S: "fl_sum f64 (map T idx) = Fin S" "sum_list (map g idx) \<le> S" "S \<le> 0"
    by auto
  have lo: "- (2 ^ 64 * 1000 + 2 ^ 1000) \<le> t + S"
    using t S Cons.prems(2) by simp
  have hi: "t + S \<le> 2 ^ 64 * 1000 + 2 ^ 1000" using t S by simp
  show ?case
    using t S of_sum_f64_in [OF lo hi] by simp
qed


lemma core_fl_asym:
  fixes f g :: "nat \<Rightarrow> real" and r :: "nat \<Rightarrow> real \<times> real" and D :: "real \<Rightarrow> real \<Rightarrow> npfloat"
  shows "map2 H (map2 D (map f idx) (map g idx))
     (map2 (+)
        (map2 (*) (map (\<lambda>s. of_bool (\<not> s)) (map P (map2 D (map f idx) (map g idx))))
           (map fst (map r idx)))
        (map2 (*) (map (\<lambda>s. of_bool s) (map P (map2 D (map f idx) (map g idx))))
           (map snd (map r idx))))
   = map (\<lambda>i. H (D (f i) (g i)) (if P (D (f i) (g i)) then snd (r i) else fst (r i))) idx"
  by (induction idx) simp_all

lemma core_fl_sym:
  fixes f g e :: "nat \<Rightarrow> real" and D :: "real \<Rightarrow> real \<Rightarrow> npfloat"
  shows "map2 H (map2 D (map f idx) (map g idx)) (map e idx)
   = map (\<lambda>i. H (D (f i) (g i)) (e i)) idx"
  by (induction idx) simp_all

lemma logprob_array_fl_points:
  assumes "shapes_ok model d"
  shows "logprob_array_fl F model d =
    Inr (map (\<lambda>i. fl_div F (np_neg (fl_mul F (of_sum F (model ! i - flux d ! i))
                                           (of_sum F (model ! i - flux d ! i))))
             (fl_mul F (Fin 2)
               (fl_mul F
                 (Fin (case dflux d of Sym e \<Rightarrow> e ! i
                       | Asym r \<Rightarrow> if np_gt (of_sum F (model ! i - flux d ! i)) (Fin 0)
                                  then snd (r ! i) else fst (r ! i)))
                 (Fin (case dflux d of Sym e \<Rightarrow> e ! i
                       | Asym r \<Rightarrow> if np_gt (of_sum F (model ! i - flux d ! i)) (Fin 0)
                                  then snd (r ! i) else fst (r ! i))))))
           (nonul_points d))"
proof -
  from assms have len: "length model = length (ul d)" "length (flux d) = length (ul d)"
    by (simp_all add: shapes_ok_def)
  show ?thesis
  proof (cases "dflux d")
    case (Sym e)
    with assms have "length e = length (ul d)" by (simp add: shapes_ok_def)
    then show ?thesis
      unfolding logprob_array_fl_def Let_def
      by (simp only: Sym errs.case bool_index_notul len sum.case core_fl_sym)
  next
    case (Asym r)
    with assms have lr: "length r = length (ul d)" by (simp add: shapes_ok_def)
    show ?thesis
      unfolding logprob_array_fl_def Let_def
      by (simp only: Asym errs.case bool_index_notul len lr sum.case core_fl_asym)
  qed
qed

lemma logprob_array_f64_points:
  assumes "shapes_ok model d"
    and "\<forall>i\<in>set (nonul_points d). \<bar>difference_at model d i\<bar> \<le> 2 ^ 500"
  shows "logprob_array_fl f64 model d =
    Inr (map (\<lambda>i. fl_div f64 (np_neg (fl_mul f64 (Fin (difference_at model d i))
                                             (Fin (difference_at model d i))))
             (fl_mul f64 (Fin 2)
               (fl_mul f64 (Fin (sigma_at model d i)) (Fin (sigma_at model d i)))))
           (nonul_points d))"
proof -
  have e: "of_sum f64 (model ! i - flux d ! i) = Fin (difference_at model d i)"
    if "i \<in> set (nonul_points d)" for i
  proof -
    from that assms(2) have "\<bar>difference_at model d i\<bar> \<le> 2 ^ 500" by blast
    then have "- (2 ^ 64 * 1000 + 2 ^ 1000) \<le> difference_at model d i"
      and "difference_at model d i \<le> 2 ^ 64 * 1000 + 2 ^ 1000"
      by simp_all
    then show ?thesis
      using of_sum_f64_in [of "difference_at model d i"] by (simp add: difference_at_def)
  qed
  show ?thesis
    unfolding logprob_array_fl_points [OF assms(1)]
    by (rule arg_cong [where f = Inr], rule map_cong [OF refl])
      (simp add: e sigma_at_def split: errs.splits)
qed

lemma sum_list_nonpos_le:
  fixes g :: "nat \<Rightarrow> real"
  assumes "\<forall>i\<in>set idx. g i \<le> 0" and "j \<in> set idx"
  shows "sum_list (map g idx) \<le> g j"
  using assms
proof (induction idx)
  case Nil
  then show ?case by simp
next
  case (Cons i idx)
  have s: "sum_list (map g idx) \<le> 0"
    using Cons.prems(1) by (intro sum_list_nonpos) auto
  show ?case
  proof (cases "j = i")
    case True
    then show ?thesis using s by simp
  next
    case False
    then have "sum_list (map g idx) \<le> g j" using Cons by simp
    moreover have "g i \<le> 0" using Cons.prems(1) by simp
    ultimately show ?thesis by simp
  qed
qed


lemma ln_bounds:
  fixes x :: real
  assumes "1 / 2 ^ 53 \<le> x" and "x \<le> 2 ^ 1000"
  shows "\<bar>ln x\<bar> \<le> 1000"
proof -
  have l2: "ln (2::real) \<le> 1" "0 \<le> ln (2::real)" using ln_2_less_1 by simp_all
  have pos: "0 < x"
  proof -
    have "(0::real) < 1 / 2 ^ 53" by simp
    with assms(1) show ?thesis by linarith
  qed
  have "ln x \<le> ln (2 ^ 1000)" using pos assms(2) by (intro ln_mono) simp_all
  also have "ln ((2::real) ^ 1000) = real 1000 * ln 2" by (rule ln_realpow)
  finally have up: "ln x \<le> 1000" using l2 by simp
  have "ln (1 / 2 ^ 53) \<le> ln x" using pos assms(1) by (intro ln_mono) simp_all
  moreover have "ln (1 / (2::real) ^ 53) = - ln (2 ^ 53)" by (simp add: ln_div)
  moreover have "ln ((2::real) ^ 53) = real 53 * ln 2" by (rule ln_realpow)
  ultimately have "- 53 \<le> ln x" using l2 by simp
  with up show ?thesis by simp
qed

lemma ul_term_f64:
  assumes "1 / 2 ^ 53 \<le> x" and "x \<le> 2 ^ 1000" and "real k \<le> 2 ^ 64"
  shows "\<exists>u. fl_mul f64 (Fin (real k)) (np_log (of_sum f64 x)) = Fin u \<and> \<bar>u\<bar> \<le> 2 ^ 64 * 1000"
proof -
  have pos: "0 < x"
  proof -
    have "(0::real) < 1 / 2 ^ 53" by simp
    with assms(1) show ?thesis by linarith
  qed
  have s: "of_sum f64 x = Fin x"
    using pos assms(2) by (intro of_sum_f64_in) simp_all
  have "\<bar>real k * ln x\<bar> = real k * \<bar>ln x\<bar>" by (simp add: abs_mult)
  also have "\<dots> \<le> 2 ^ 64 * 1000"
    using assms(3) ln_bounds [OF assms(1) assms(2)] by (intro mult_mono) simp_all
  finally have "\<bar>real k * ln x\<bar> \<le> 2 ^ 64 * 1000" .
  from of_prod_f64_abs [OF this] show ?thesis
    using s pos by simp
qed

lemma lnprobmodel_fl_eq:
  assumes "shapes_ok model d" and "logprob_array_fl F model d = Inr lp"
  shows "lnprobmodel_fl F model d =
    Inr (if ul_points d = [] then fl_sum F lp
         else fl_add F (fl_sum F lp)
                (fl_mul F (Fin (real (length (violated model d))))
                   (np_log (of_sum F (1 - cl d)))))"
proof -
  from assms have len: "length model = length (ul d)" "length (flux d) = length (ul d)"
    by (simp_all add: shapes_ok_def)
  show ?thesis
    unfolding lnprobmodel_fl_def Let_def
    by (simp add: assms(2) count_ul bool_index_ul len count_violated violated_def
        del: fl_add.simps fl_mul.simps np_log.simps)
qed

lemma violated_le: "real (length (violated model d)) \<le> real (length (ul d))"
proof -
  have "length (violated model d) \<le> length (ul_points d)"
    unfolding violated_def by (rule length_filter_le)
  also have "\<dots> \<le> length [0..<length (ul d)]"
    unfolding ul_points_def by (rule length_filter_le)
  finally show ?thesis by simp
qed

text \<open>
  Claim C3, amended. In the range of double precision the log-likelihood is a finite
  number when the arrays are index-aligned, every point that is not an upper limit has
  \<open>|model - flux| \<le> 2\<^sup>5\<^sup>0\<^sup>0\<close> and a selected uncertainty of magnitude at least
  \<open>2\<^sup>-\<^sup>5\<^sup>0\<^sup>0\<close>, the sum of \<open>difference\<^sup>2/(2\<sigma>\<^sup>2)\<close> over these points is at most
  \<open>2\<^sup>1\<^sup>0\<^sup>0\<^sup>0\<close> and, when the set has upper limits, \<open>2\<^sup>-\<^sup>5\<^sup>3 \<le> 1 - cl \<le> 2\<^sup>1\<^sup>0\<^sup>0\<^sup>0\<close>
  and the set has at most \<open>2\<^sup>6\<^sup>4\<close> points.
\<close>

theorem lnprobmodel_f64_finite:
  assumes shapes: "shapes_ok model d"
    and pts: "\<forall>i\<in>set (nonul_points d).
        \<bar>difference_at model d i\<bar> \<le> 2 ^ 500 \<and> 1 / 2 ^ 500 \<le> \<bar>sigma_at model d i\<bar>"
    and total: "- (2 ^ 1000) \<le>
        sum_list (map (\<lambda>i. gauss_term (difference_at model d i) (sigma_at model d i))
                    (nonul_points d))"
    and uls: "ul_points d = [] \<or>
        (1 / 2 ^ 53 \<le> 1 - cl d \<and> 1 - cl d \<le> 2 ^ 1000 \<and> real (length (ul d)) \<le> 2 ^ 64)"
  shows "\<exists>r. lnprobmodel_fl f64 model d = Inr (Fin r)"
proof -
  let ?g = "\<lambda>i. gauss_term (difference_at model d i) (sigma_at model d i)"
  let ?T = "\<lambda>i. fl_div f64 (np_neg (fl_mul f64 (Fin (difference_at model d i))
                                             (Fin (difference_at model d i))))
             (fl_mul f64 (Fin 2)
               (fl_mul f64 (Fin (sigma_at model d i)) (Fin (sigma_at model d i))))"
  have dbound: "\<forall>i\<in>set (nonul_points d). \<bar>difference_at model d i\<bar> \<le> 2 ^ 500"
    using pts by blast
  have lp: "logprob_array_fl f64 model d = Inr (map ?T (nonul_points d))"
    using logprob_array_f64_points [OF shapes dbound] .
  have neg: "\<forall>i\<in>set (nonul_points d). ?g i \<le> 0"
    by (simp add: gauss_term_def)
  have terms: "\<forall>i\<in>set (nonul_points d). \<exists>t. ?T i = Fin t \<and> ?g i \<le> t \<and> t \<le> 0"
  proof
    fix i assume i: "i \<in> set (nonul_points d)"
    have "sum_list (map ?g (nonul_points d)) \<le> ?g i"
      using sum_list_nonpos_le [of "nonul_points d" ?g i] neg i by blast
    with total have g: "- (2 ^ 1000) \<le> ?g i" by linarith
    from pts i have "\<bar>difference_at model d i\<bar> \<le> 2 ^ 500"
      and "1 / 2 ^ 500 \<le> \<bar>sigma_at model d i\<bar>" by blast+
    then show "\<exists>t. ?T i = Fin t \<and> ?g i \<le> t \<and> t \<le> 0"
      using g by (rule term_f64)
  qed
  from fl_sum_f64 [of "nonul_points d" ?T ?g, OF terms total]
  obtain S where S: "fl_sum f64 (map ?T (nonul_points d)) = Fin S"
    "sum_list (map ?g (nonul_points d)) \<le> S" "S \<le> 0" by blast
  note eq = lnprobmodel_fl_eq [OF shapes lp]
  show ?thesis
  proof (cases "ul_points d = []")
    case True
    then show ?thesis using eq S by simp
  next
    case False
    with uls have c: "1 / 2 ^ 53 \<le> 1 - cl d" "1 - cl d \<le> 2 ^ 1000"
      "real (length (ul d)) \<le> 2 ^ 64" by blast+
    have k: "real (length (violated model d)) \<le> 2 ^ 64"
      using violated_le [of model d] c(3) by linarith
    from ul_term_f64 [OF c(1) c(2) k]
    obtain u where u: "fl_mul f64 (Fin (real (length (violated model d))))
        (np_log (of_sum f64 (1 - cl d))) = Fin u" "\<bar>u\<bar> \<le> 2 ^ 64 * 1000" by blast
    have lo: "- (2 ^ 64 * 1000 + 2 ^ 1000) \<le> S + u"
      using S total u(2) by linarith
    have "(0::real) \<le> 2 ^ 1000" by simp
    then have hi: "S + u \<le> 2 ^ 64 * 1000 + 2 ^ 1000"
      using S(3) u(2) by linarith
    show ?thesis
      using eq False S(1) u(1) of_sum_f64_in [OF lo hi] by simp
  qed
qed

text \<open>
  The theorem at a set with two measured points and one violated upper limit at
  confidence level 1/2.
\<close>

theorem lnprobmodel_f64_finite_witness:
  "\<exists>r. lnprobmodel_fl f64 [2, 0, 5] \<lparr>ene = [1, 2, 3], flux = [1, 1, 1], dflux = Sym [1, 1, 1],
      ul = [False, False, True], cl = 1 / 2\<rparr> = Inr (Fin r)"
  using lnprobmodel_f64_finite [of "[2, 0, 5]"
      "\<lparr>ene = [1, 2, 3], flux = [1, 1, 1], dflux = Sym [1, 1, 1],
        ul = [False, False, True], cl = 1 / 2\<rparr>"]
  by (simp add: shapes_ok_def nonul_points_def ul_points_def sigma_at_def difference_at_def
      gauss_term_def upt_rec [of 0] upt_rec [of 1] upt_rec [of 2])

text \<open>
  Claim C3 as worded fails on finite inputs, each of which gives \<open>-\<infinity>\<close>: a violated upper
  limit at confidence level 1 (\<open>log(0)\<close>); a zero uncertainty at a point off the model
  (division by zero); a difference of \<open>10\<^sup>2\<^sup>0\<^sup>0\<close>, whose square overflows; an uncertainty
  of \<open>10\<^sup>-\<^sup>2\<^sup>0\<^sup>0\<close>, whose square underflows to zero; and a difference of \<open>2\<^sup>5\<^sup>0\<^sup>0\<close> with
  an uncertainty of \<open>2\<^sup>-\<^sup>5\<^sup>0\<^sup>0\<close>, whose quotient overflows.
\<close>

theorem lnprobmodel_infinite_counterexample:
  "lnprobmodel_fl f64 [2] \<lparr>ene = [1], flux = [1], dflux = Sym [1], ul = [True], cl = 1\<rparr>
     = Inr NInf \<and>
   lnprobmodel_fl f64 [2] \<lparr>ene = [1], flux = [1], dflux = Sym [0], ul = [False], cl = 0\<rparr>
     = Inr NInf \<and>
   lnprobmodel_fl f64 [10 ^ 200] \<lparr>ene = [1], flux = [0], dflux = Sym [1], ul = [False], cl = 0\<rparr>
     = Inr NInf \<and>
   lnprobmodel_fl f64 [1] \<lparr>ene = [1], flux = [0], dflux = Sym [1 / 10 ^ 200], ul = [False], cl = 0\<rparr>
     = Inr NInf \<and>
   lnprobmodel_fl f64 [2 ^ 500] \<lparr>ene = [1], flux = [0], dflux = Sym [1 / 2 ^ 500], ul = [False],
      cl = 0\<rparr>
     = Inr NInf"
  by (simp add: lnprobmodel_fl_def logprob_array_fl_def bool_index_def f64_def f64_huge_def
      f64_tiny_def)



section \<open>Properties of the posterior function, the priors and the set-up\<close>

text \<open>
  Claim C4. When the evaluator, the likelihood and the prior return, the posterior function
  returns the sum of log-likelihood and log-prior, with a blob that holds the one element
  made of the energy grid and the flux array when the evaluator returned a bare array, and
  that is the tuple of the further elements, unchanged, when it returned a tuple; it
  prints one progress record.
\<close>

theorem lnprob_total_and_blob:
  assumes "modelfunc pars d = Inr mo"
    and "lnprobmodel (flux_array mo) d = Inr ll"
    and "priorfunc pars = Inr lpr"
  shows "lnprob pars d modelfunc priorfunc =
      (Inr (np_add ll lpr, (case mo of Bare m \<Rightarrow> [Rows [ene d, m]] | Tuple m extra \<Rightarrow> extra)),
       [Progress pars (np_add ll lpr)])"
  using assms by (cases mo) (simp_all add: lnprob_def Let_def)

text \<open>
  The theorem at an evaluator that returns a bare array under the flat prior, and at one
  that returns a tuple under a prior that rules the parameters out.
\<close>

theorem lnprob_total_and_blob_witness:
  "lnprob [Fin 1] \<lparr>ene = [7], flux = [1], dflux = Sym [1], ul = [False], cl = 0\<rparr>
      (\<lambda>p d. Inr (Bare [2])) flatprior
     = (Inr (Fin (- 1 / 2), [Rows [[7], [2]] :: unit pyval]), [Progress [Fin 1] (Fin (- 1 / 2))]) \<and>
   lnprob [Fin 1] \<lparr>ene = [7], flux = [1], dflux = Sym [1], ul = [False], cl = 0\<rparr>
      (\<lambda>p d. Inr (Tuple [2] [Opaque (), Rows [[5]]])) (\<lambda>p. Inr NInf)
     = (Inr (NInf, [Opaque (), Rows [[5]]]), [Progress [Fin 1] NInf])"
proof -
  let ?d = "\<lparr>ene = [7], flux = [1], dflux = Sym [1], ul = [False], cl = 0\<rparr>"
  have l: "lnprobmodel [2] ?d = Inr (Fin (- 1 / 2))"
    by (simp add: lnprobmodel_def logprob_array_def bool_index_def)
  have a: "lnprob [Fin 1] ?d (\<lambda>p d. Inr (Bare [2] :: unit modelout)) flatprior
     = (Inr (Fin (- 1 / 2), [Rows [[7], [2]]]), [Progress [Fin 1] (Fin (- 1 / 2))])"
    using lnprob_total_and_blob [of "\<lambda>p d. Inr (Bare [2])" "[Fin 1]" ?d "Bare [2]"
        "Fin (- 1 / 2)" flatprior "Fin 0"] l
    by (simp add: flatprior_def)
  have b: "lnprob [Fin 1] ?d (\<lambda>p d. Inr (Tuple [2] [Opaque (), Rows [[5]]])) (\<lambda>p. Inr NInf)
     = (Inr (NInf, [Opaque (), Rows [[5]]]), [Progress [Fin 1] NInf])"
    using lnprob_total_and_blob [of "\<lambda>p d. Inr (Tuple [2] [Opaque (), Rows [[5]]])" "[Fin 1]" ?d
        "Tuple [2] [Opaque (), Rows [[5]]]" "Fin (- 1 / 2)" "\<lambda>p. Inr NInf" NInf] l
    by simp
  from a b show ?thesis by simp
qed

lemma normal_prior_value:
  assumes "sigma \<noteq> 0"
  shows "normal_prior v mean sigma = Fin (- (pi * sigma) - (v - mean) ^ 2 / (2 * sigma))"
  using assms by (simp add: normal_prior_def np_sub_def)

text \<open>
  Claim C5 at mean 0 and sigma 2: from value 0 to value 1 the prior falls by 1/4, which is
  \<open>(value-mean)\<^sup>2/(2\<sigma>)\<close>; the penalty of the claim, \<open>(value-mean)\<^sup>2/(2\<sigma>\<^sup>2)\<close>, is
  1/8.
\<close>

theorem normal_prior_at_sigma_2:
  "normal_prior 1 0 2 = Fin (- (2 * pi) - 1 / 4) \<and> normal_prior 0 0 2 = Fin (- (2 * pi))"
  by (simp add: normal_prior_def np_sub_def)

text \<open>
  Claim C6. Without a data set, whatever the other arguments, the library and the store
  are, \<open>get_sampler\<close> raises TypeError after printing its message: nothing else is
  printed, so no likelihood was evaluated, and the store is unchanged.
\<close>

theorem get_sampler_without_data:
  "get_sampler lib nwalkers nburn guess p0_arg None model prior threads st
     = (Inl TypeError, [Text ''Need to provide data!''], st)"
  by (simp add: get_sampler_def)


section \<open>Properties of the confidence bands\<close>

lemma collect_all:
  assumes "\<forall>x\<in>set xs. f x = Inr (g x)"
  shows "collect f xs = Inr (map g xs)"
  using assms by (induction xs) simp_all

lemma column_values:
  assumes "ensemble_ok model modelx" and "i < length modelx"
  shows "column model i = Inr (values_at model i)"
proof -
  have cond: "model \<noteq> [] \<and> (\<forall>c\<in>set model. length c = length (hd model)) \<and>
      i < length (hd model)"
    using assms unfolding ensemble_ok_def by (blast intro: less_le_trans)
  show ?thesis
    unfolding column_def values_at_def by (rule if_P [OF cond])
qed

lemma py_index_nat:
  assumes "k < length xs"
  shows "py_index xs (int k) = Inr (xs ! k)"
  using assms by (simp add: py_index_def)

lemma rank_bounds:
  assumes "0 \<le> fr" and "fr < 1" and "0 < n"
  shows "py_int (fr * real n) = int (nat \<lfloor>fr * real n\<rfloor>) \<and> nat \<lfloor>fr * real n\<rfloor> < n"
proof -
  have nn: "0 \<le> fr * real n" using assms by simp
  have "fr * real n < real n" using assms by simp
  then have up: "\<lfloor>fr * real n\<rfloor> < int n" by (simp add: floor_less_iff)
  have lo: "0 \<le> \<lfloor>fr * real n\<rfloor>" using nn by simp
  have "py_int (fr * real n) = \<lfloor>fr * real n\<rfloor>" using nn by (simp add: py_int_def)
  moreover have "int (nat \<lfloor>fr * real n\<rfloor>) = \<lfloor>fr * real n\<rfloor>" using lo by simp
  moreover have "nat \<lfloor>fr * real n\<rfloor> < n" using lo up by linarith
  ultimately show ?thesis by simp
qed

lemma quantile_curve_ranks:
  assumes ok: "ensemble_ok model modelx" and fr: "0 \<le> fr" "fr < 1"
  shows "quantile_curve model modelx fr =
     Inr (map (\<lambda>i. order_stat (values_at model i) (nat \<lfloor>fr * real (length model)\<rfloor>))
            [0..<length modelx])"
proof -
  from ok have n: "0 < length model" by (simp add: ensemble_ok_def)
  note rb = rank_bounds [OF fr n]
  have "\<forall>i\<in>set [0..<length modelx].
      (case column model i of Inl e \<Rightarrow> Inl e
       | Inr col \<Rightarrow> py_index (sort col) (py_int (fr * real (length model))))
      = Inr (order_stat (values_at model i) (nat \<lfloor>fr * real (length model)\<rfloor>))"
  proof
    fix i assume "i \<in> set [0..<length modelx]"
    then have i: "i < length modelx" by simp
    have len: "length (sort (values_at model i)) = length model"
      by (simp add: values_at_def)
    have k: "nat \<lfloor>fr * real (length model)\<rfloor> < length (sort (values_at model i))"
      using rb len by simp
    have "py_index (sort (values_at model i)) (py_int (fr * real (length model)))
        = Inr (order_stat (values_at model i) (nat \<lfloor>fr * real (length model)\<rfloor>))"
      using py_index_nat [OF k] rb by (simp only: order_stat_def)
    then show "(case column model i of Inl e \<Rightarrow> Inl e
       | Inr col \<Rightarrow> py_index (sort col) (py_int (fr * real (length model))))
      = Inr (order_stat (values_at model i) (nat \<lfloor>fr * real (length model)\<rfloor>))"
      by (simp only: column_values [OF ok i] sum.case)
  qed
  then show ?thesis
    unfolding quantile_curve_def Let_def by (rule collect_all)
qed

lemma half_rank: "nat \<lfloor>real n / 2\<rfloor> = n div 2"
proof -
  have "\<lfloor>real n / real 2\<rfloor> = int (n div 2)"
    by (rule floor_divide_of_nat_eq)
  then show ?thesis by simp
qed

text \<open>
  Claim C7, amended. At confidence level 0, with a distribution function of value 1/2 at
  0, the lower and the upper band coincide: at every point of the energy grid both are the
  order statistic of rank \<open>n div 2\<close> (from 0) of that point's values across the \<open>n\<close>
  curves of the ensemble, which is the median when \<open>n\<close> is odd.
\<close>

theorem conf_band_zero:
  assumes "cdf 0 = 1 / 2" and "ensemble_ok model modelx"
  shows "conf_band cdf model modelx 0 =
      Inr (map (\<lambda>i. order_stat (values_at model i) (length model div 2)) [0..<length modelx],
           map (\<lambda>i. order_stat (values_at model i) (length model div 2)) [0..<length modelx]) \<and>
    (odd (length model) \<longrightarrow>
      (\<forall>i. np_median (values_at model i)
           = Fin (order_stat (values_at model i) (length model div 2))))"
proof -
  have q: "quantile_curve model modelx (1 / 2) =
      Inr (map (\<lambda>i. order_stat (values_at model i) (length model div 2)) [0..<length modelx])"
    using quantile_curve_ranks [OF assms(2), of "1 / 2"] by (simp add: half_rank)
  have m: "np_median (values_at model i)
      = Fin (order_stat (values_at model i) (length model div 2))" if "odd (length model)" for i
    using that by (auto simp add: np_median_def values_at_def order_stat_def Let_def)
  show ?thesis
    using q m by (simp add: conf_band_def assms(1))
qed

lemma cdf_standin_zero: "cdf_standin 0 = 1 / 2"
  by (simp add: cdf_standin_def)

lemma cdf_standin_range: "0 \<le> cdf_standin x \<and> cdf_standin x < 1"
proof -
  have p: "0 < 1 + \<bar>x\<bar>" by simp
  have "- 1 < x / (1 + \<bar>x\<bar>)" using p by (simp add: field_simps) 
  moreover have "x / (1 + \<bar>x\<bar>) < 1" using p by (simp add: field_simps)
  ultimately show ?thesis by (simp add: cdf_standin_def field_simps)
qed

lemma cdf_standin_mono:
  assumes "x \<le> y"
  shows "cdf_standin x \<le> cdf_standin y"
proof -
  have px: "0 < 1 + \<bar>x\<bar>" and py: "0 < 1 + \<bar>y\<bar>" by simp_all
  have "x * (1 + \<bar>y\<bar>) \<le> y * (1 + \<bar>x\<bar>)"
  proof (cases "0 \<le> x")
    case True
    with assms have "0 \<le> y" by simp
    with True assms show ?thesis by (simp add: algebra_simps)
  next
    case False
    then have x: "x < 0" by simp
    show ?thesis
    proof (cases "0 \<le> y")
      case True
      have "x * (1 + \<bar>y\<bar>) \<le> 0" using x True by (simp add: mult_le_0_iff)
      moreover have "0 \<le> y * (1 + \<bar>x\<bar>)" using True by simp
      ultimately show ?thesis by linarith
    next
      case False
      with x assms show ?thesis by (simp add: algebra_simps)
    qed
  qed
  then have "x / (1 + \<bar>x\<bar>) \<le> y / (1 + \<bar>y\<bar>)"
    using px py by (simp add: field_simps)
  then have h: "x / (1 + \<bar>x\<bar>) / 2 \<le> y / (1 + \<bar>y\<bar>) / 2"
    by (rule divide_right_mono) simp
  have e: "z / (2 * (1 + \<bar>z\<bar>)) = z / (1 + \<bar>z\<bar>) / 2" for z :: real
    by (simp only: divide_divide_eq_left mult.commute)
  show ?thesis unfolding cdf_standin_def e using h by (rule add_left_mono)
qed

lemma floor_rank_mono:
  assumes "fr1 \<le> fr2" and "0 \<le> fr1"
  shows "nat \<lfloor>fr1 * real n\<rfloor> \<le> nat \<lfloor>fr2 * real n\<rfloor>"
proof -
  have "fr1 * real n \<le> fr2 * real n" using assms by (simp add: mult_right_mono)
  then have "\<lfloor>fr1 * real n\<rfloor> \<le> \<lfloor>fr2 * real n\<rfloor>" by (rule floor_mono)
  then show ?thesis by simp
qed

lemma order_stat_mono:
  assumes "j \<le> k" and "k < length xs"
  shows "order_stat xs j \<le> order_stat xs k"
  using assms by (simp add: order_stat_def sorted_nth_mono)

lemma quantile_rank_mono:
  assumes "fr1 \<le> fr2" "0 \<le> fr1" "fr2 < 1" "0 < length model"
  shows "order_stat (values_at model i) (nat \<lfloor>fr1 * real (length model)\<rfloor>)
       \<le> order_stat (values_at model i) (nat \<lfloor>fr2 * real (length model)\<rfloor>)"
proof -
  have fr2: "0 \<le> fr2" using assms by simp
  have "nat \<lfloor>fr2 * real (length model)\<rfloor> < length (values_at model i)"
    using rank_bounds [OF fr2 assms(3) assms(4)] by (simp add: values_at_def)
  then show ?thesis
    using floor_rank_mono [OF assms(1) assms(2)] by (rule order_stat_mono [rotated])
qed

text \<open>
  Claim C8, amended. For a monotone, non-negative distribution function, confidence levels
  \<open>c1 < c2\<close> whose upper quantile fractions \<open>cdf c2\<close> and \<open>cdf (- c1)\<close> are below 1,
  and a non-empty ensemble of curves that cover the energy grid, both bands are computed
  and the band of \<open>c2\<close> contains the band of \<open>c1\<close> at every point of the grid.
\<close>

theorem conf_band_nested:
  assumes mono: "\<forall>x y. x \<le> y \<longrightarrow> cdf x \<le> cdf y"
    and nonneg: "\<forall>x. 0 \<le> cdf x"
    and below: "cdf c2 < 1" "cdf (- c1) < 1"
    and lt: "c1 < c2"
    and ok: "ensemble_ok model modelx"
  shows "\<exists>lo1 hi1 lo2 hi2.
      conf_band cdf model modelx c1 = Inr (lo1, hi1) \<and>
      conf_band cdf model modelx c2 = Inr (lo2, hi2) \<and>
      length lo1 = length modelx \<and> length hi1 = length modelx \<and>
      length lo2 = length modelx \<and> length hi2 = length modelx \<and>
      (\<forall>i < length modelx. lo2 ! i \<le> lo1 ! i \<and> hi1 ! i \<le> hi2 ! i)"
proof -
  let ?q = "\<lambda>fr. map (\<lambda>i. order_stat (values_at model i) (nat \<lfloor>fr * real (length model)\<rfloor>))
            [0..<length modelx]"
  have lo: "cdf (- c2) \<le> cdf (- c1)" and hi: "cdf c1 \<le> cdf c2"
    using mono lt by simp_all
  have up: "cdf c1 < 1" "cdf (- c2) < 1"
    using lo hi below by simp_all
  have qc: "quantile_curve model modelx (cdf x) = Inr (?q (cdf x))" if "cdf x < 1" for x
    using quantile_curve_ranks [OF ok, of "cdf x"] nonneg that by simp
  have b1: "conf_band cdf model modelx c1 = Inr (?q (cdf (- c1)), ?q (cdf c1))"
    by (simp add: conf_band_def qc below up)
  have b2: "conf_band cdf model modelx c2 = Inr (?q (cdf (- c2)), ?q (cdf c2))"
    by (simp add: conf_band_def qc below up)
  from ok have n: "0 < length model" by (simp add: ensemble_ok_def)
  have "?q (cdf (- c2)) ! i \<le> ?q (cdf (- c1)) ! i \<and> ?q (cdf c1) ! i \<le> ?q (cdf c2) ! i"
    if "i < length modelx" for i
    using that quantile_rank_mono [OF lo _ below(2) n, of i]
      quantile_rank_mono [OF hi _ below(1) n, of i] nonneg
    by simp
  then show ?thesis
    using b1 b2 by simp
qed

text \<open>
  When the upper fraction is 1 the rank is the number of curves, one past the end of the
  sorted column: the band of that level is not computed.
\<close>

lemma conf_band_saturated:
  assumes one: "cdf c = 1" and low: "0 \<le> cdf (- c)" "cdf (- c) < 1"
    and ok: "ensemble_ok model modelx" and grid: "modelx \<noteq> []"
  shows "conf_band cdf model modelx c = Inl IndexError"
proof -
  have q: "quantile_curve model modelx (cdf (- c)) =
      Inr (map (\<lambda>i. order_stat (values_at model i) (nat \<lfloor>cdf (- c) * real (length model)\<rfloor>))
            [0..<length modelx])"
    using quantile_curve_ranks [OF ok low] .
  from grid have pos: "0 < length modelx" by simp
  then have u: "[0..<length modelx] = 0 # [1..<length modelx]"
    by (simp add: upt_rec [of 0])
  have len: "length (sort (values_at model 0)) = length model"
    by (simp add: values_at_def)
  have "py_int (1 * real (length model)) = int (length model)"
    by (simp add: py_int_def)
  then have "py_index (sort (values_at model 0)) (py_int (1 * real (length model))) = Inl IndexError"
    using len by (simp add: py_index_def)
  then have "quantile_curve model modelx 1 = Inl IndexError"
    unfolding quantile_curve_def Let_def u
    by (simp add: column_values [OF ok pos])
  then show ?thesis
    by (simp add: conf_band_def q one)
qed


section \<open>The curve at the mean parameters\<close>

lemma calc_fit_CI_Inr:
  assumes "calc_fit_CI cdf s k confs last_step = (Inr (mx, CI, mm), out)"
  shows "\<exists>lp blob out0. lnprobfn s (MAPp s) = (Inr (lp, blob), out0) \<and> blob_row blob k 1 = Inr mm"
  using assms
  by (simp add: calc_fit_CI_def Let_def split: sum.splits prod.splits)

lemma lnprob_Inr:
  assumes "lnprob p d mf pf = (Inr (lp, blob), out)"
  shows "\<exists>mo. mf p d = Inr mo \<and>
     blob = (case mo of Bare m \<Rightarrow> [Rows [ene d, m]] | Tuple m extra \<Rightarrow> extra)"
  using assms
  by (auto simp add: lnprob_def Let_def split: sum.splits modelout.splits)

lemma blob_row_default:
  assumes "blob_row [Rows [a, b]] k 1 = Inr c"
  shows "k = 0 \<and> c = b"
  using assms
  by (cases k) (simp_all add: blob_row_def py_index_def)

text \<open>
  Claim C9, amended. When \<open>calc_fit_CI\<close> returns, for a sampler whose log-probability
  function is the posterior function of the data, the evaluator and the prior: if the
  evaluator returns a bare array at the mean parameter vector, the model slot is 0 and the
  returned curve is that array; if it returns a tuple, the returned curve is array 1 of
  element \<open>modelidx\<close> of the further elements of the tuple.
\<close>

theorem calc_fit_CI_MAP_curve:
  assumes "calc_fit_CI cdf s modelidx confs last_step = (Inr (modelx, CI, model_MAP), out)"
    and "lnprobfn s = (\<lambda>p. lnprob p d modelfunc priorfunc)"
  shows "(\<forall>m. modelfunc (MAPp s) d = Inr (Bare m) \<longrightarrow> modelidx = 0 \<and> model_MAP = m) \<and>
    (\<forall>m extra. modelfunc (MAPp s) d = Inr (Tuple m extra) \<longrightarrow>
       blob_row extra modelidx 1 = Inr model_MAP)"
proof -
  obtain lp blob out0 where l: "lnprob (MAPp s) d modelfunc priorfunc = (Inr (lp, blob), out0)"
    and b: "blob_row blob modelidx 1 = Inr model_MAP"
    using calc_fit_CI_Inr [OF assms(1)] assms(2) by auto
  obtain mo where mo: "modelfunc (MAPp s) d = Inr mo"
    and bl: "blob = (case mo of Bare m \<Rightarrow> [Rows [ene d, m]] | Tuple m extra \<Rightarrow> extra)"
    using lnprob_Inr [OF l] by blast
  show ?thesis
  proof (cases mo)
    case (Bare m)
    then show ?thesis using mo bl b blob_row_default [of "ene d" m modelidx model_MAP] by simp
  next
    case (Tuple m extra)
    then show ?thesis using mo bl b by simp
  qed
qed

section \<open>Instances for the confidence bands and the curve at the mean parameters\<close>

text \<open>
  The band of level 0 for three curves on a grid of one point: both bands are the middle
  value, the median.
\<close>

theorem conf_band_zero_witness:
  "conf_band cdf_standin [[3], [1], [2]] [0] 0 = Inr ([2], [2]) \<and>
   np_median (values_at [[3], [1], [2]] 0) = Fin 2"
proof -
  have ok: "ensemble_ok [[3], [1], [2]] [0]" by (simp add: ensemble_ok_def)
  note t = conf_band_zero [of cdf_standin, OF cdf_standin_zero ok]
  from t have b: "conf_band cdf_standin [[3], [1], [2]] [0] 0 = Inr ([2], [2])"
    by (simp add: order_stat_def values_at_def)
  from t have "\<forall>i. np_median (values_at [[3], [1], [2]] i)
      = Fin (order_stat (values_at [[3], [1], [2]] i) (length [[3 :: real], [1], [2]] div 2))"
    by simp
  then have "np_median (values_at [[3], [1], [2]] 0)
      = Fin (order_stat (values_at [[3], [1], [2]] 0) (length [[3 :: real], [1], [2]] div 2))"
    by (rule spec)
  then have "np_median (values_at [[3], [1], [2]] 0) = Fin 2"
    by (simp add: order_stat_def values_at_def)
  with b show ?thesis by simp
qed

text \<open>
  Claim C7 as worded fails for an ensemble of even size: for the two curves with values 1
  and 2 both bands are 2, the upper of the two middle values, and the median is 3/2.
\<close>

theorem conf_band_median_counterexample:
  "conf_band cdf_standin [[1], [2]] [0] 0 = Inr ([2], [2]) \<and>
   np_median (values_at [[1], [2]] 0) = Fin (3 / 2)"
  by (simp add: conf_band_def quantile_curve_def column_def py_index_def py_int_def cdf_standin_def
     np_median_def values_at_def)

text \<open>
  The bands of the levels 1/2 and 3 for five curves on a grid of one point.
\<close>

theorem conf_band_nested_witness:
  "conf_band cdf_standin [[3], [1], [2], [5], [4]] [0] (1 / 2) = Inr ([2], [4]) \<and>
   conf_band cdf_standin [[3], [1], [2], [5], [4]] [0] 3 = Inr ([1], [5])"
proof -
  have ok: "ensemble_ok [[3], [1], [2], [5], [4]] [0]" by (simp add: ensemble_ok_def)
  have mono: "\<forall>x y. x \<le> y \<longrightarrow> cdf_standin x \<le> cdf_standin y"
    using cdf_standin_mono by blast
  have nonneg: "\<forall>x. 0 \<le> cdf_standin x"
    using cdf_standin_range by blast
  have below: "cdf_standin 3 < 1" "cdf_standin (- (1 / 2)) < 1"
    using cdf_standin_range by blast+
  have lt: "(1 / 2 :: real) < 3" by simp
  have e: "conf_band cdf_standin [[3], [1], [2], [5], [4]] [0] (1 / 2) = Inr ([2], [4])"
    "conf_band cdf_standin [[3], [1], [2], [5], [4]] [0] 3 = Inr ([1], [5])"
    by (simp_all add: conf_band_def quantile_curve_def column_def py_index_def py_int_def
        cdf_standin_def)
  show ?thesis
    using conf_band_nested [of cdf_standin, OF mono nonneg below lt ok] e by simp
qed

text \<open>
  Claim C8 as worded fails where the distribution function reaches 1: for the levels 1 and
  9 and two curves, the band of level 1 is computed and the band of level 9 is an
  IndexError.
\<close>

theorem conf_band_saturated_counterexample:
  "conf_band cdf_saturating [[1], [2]] [0] 1 = Inr ([1], [2]) \<and>
   conf_band cdf_saturating [[1], [2]] [0] 9 = Inl IndexError"
  by (simp add: conf_band_def quantile_curve_def column_def py_index_def py_int_def
      cdf_saturating_def cdf_standin_def)

text \<open>
  A sampler of one step and one walker whose evaluator returns the bare array \<open>[2]\<close>:
  the returned curve is that array.
\<close>

theorem calc_fit_CI_MAP_curve_witness:
  "calc_fit_CI cdf_standin
     \<lparr>blobs = [[[Rows [[0], [2]] :: unit pyval]]], flatchain = [[Fin 1]], dim = 1,
      lnprobfn = (\<lambda>p. lnprob p \<lparr>ene = [0], flux = [1], dflux = Sym [1], ul = [False], cl = 0\<rparr>
                    (\<lambda>p d. Inr (Bare [2])) flatprior),
      sdata = None\<rparr> 0 [] True
   = (Inr ([0], [], [2]),
      [Progress [Fin 1] (Fin (- 1 / 2)), Text ''MAP pars (mean, std):'', MAP_par (Fin 1) (Fin 0)])"
proof -
  let ?d = "\<lparr>ene = [0], flux = [1], dflux = Sym [1], ul = [False], cl = 0\<rparr>"
  let ?s = "\<lparr>blobs = [[[Rows [[0], [2]] :: unit pyval]]], flatchain = [[Fin 1]], dim = 1,
      lnprobfn = (\<lambda>p. lnprob p ?d (\<lambda>p d. Inr (Bare [2])) flatprior), sdata = None\<rparr>"
  have l: "lnprobmodel [2] ?d = Inr (Fin (- 1 / 2))"
    by (simp add: lnprobmodel_def logprob_array_def bool_index_def)
  have r: "calc_fit_CI cdf_standin ?s 0 [] True
     = (Inr ([0], [], [2]),
      [Progress [Fin 1] (Fin (- 1 / 2)), Text ''MAP pars (mean, std):'', MAP_par (Fin 1) (Fin 0)])"
    by (simp add: calc_fit_CI_def py_index_def blob_row_def MAPp_def flatchain_T_def np_mean_def
        np_std_def np_sub_def lnprob_def l flatprior_def Let_def)
  have f: "lnprobfn ?s = (\<lambda>p. lnprob p ?d (\<lambda>p d. Inr (Bare [2])) flatprior)" by simp
  show ?thesis
    using calc_fit_CI_MAP_curve [OF r f] r by simp
qed

text \<open>
  Claim C9 as worded fails for an evaluator that returns a tuple: the flux array is
  \<open>[1]\<close>, the curve in the payload is \<open>[5]\<close>, and the returned curve is the
  payload's.
\<close>

theorem calc_fit_CI_payload_counterexample:
  "fst (calc_fit_CI cdf_standin
     \<lparr>blobs = [[[Rows [[0], [5]] :: unit pyval]]], flatchain = [[Fin 1]], dim = 1,
      lnprobfn = (\<lambda>p. lnprob p \<lparr>ene = [0], flux = [1], dflux = Sym [1], ul = [False], cl = 0\<rparr>
                    (\<lambda>p d. Inr (Tuple [1] [Rows [[0], [5]]])) flatprior),
      sdata = None\<rparr> 0 [] True)
   = Inr ([0], [], [5]) \<and>
   flux_array (Tuple [1] [Rows [[0], [5]] :: unit pyval]) = [1]"
proof -
  let ?d = "\<lparr>ene = [0], flux = [1], dflux = Sym [1], ul = [False], cl = 0\<rparr>"
  have l: "lnprobmodel [1] ?d = Inr (Fin 0)"
    by (simp add: lnprobmodel_def logprob_array_def bool_index_def)
  show ?thesis
    by (simp add: calc_fit_CI_def py_index_def blob_row_def MAPp_def flatchain_T_def np_mean_def
        np_std_def np_sub_def lnprob_def l flatprior_def Let_def)
qed

section \<open>The initial guess is rescaled in place\<close>

lemma get_sampler_store:
  "snd (snd (get_sampler lib nwalkers nburn True p0_arg (Some d) model prior threads st))
     = snd (snd (guess_norm (case p0_arg of None \<Rightarrow> p00 | Some q \<Rightarrow> q) d model prior st))"
  by (simp add: get_sampler_def Let_def split: prod.splits sum.splits)

lemma get_sampler_output:
  "\<exists>rest. fst (snd (get_sampler lib nwalkers nburn True p0_arg (Some d) model prior threads st))
     = fst (snd (guess_norm (case p0_arg of None \<Rightarrow> p00 | Some q \<Rightarrow> q) d model prior st)) @ rest"
  by (simp add: get_sampler_def Let_def split: prod.splits sum.splits)

lemma guess_norm_output:
  "fst (snd (guess_norm r d model prior st)) = snd (lnprob (st r) d model prior)"
  by (simp add: guess_norm_def split: prod.splits sum.splits)

lemma guess_norm_store:
  assumes "lnprob (st r) d model prior = (Inr (lp, blob), out)"
    and "blob_row blob 0 0 = Inr ene'" and "blob_row blob 0 1 = Inr spec"
    and "1 < length (st r)"
    and "trapz (flux d) (ene d) = Inr a" and "trapz spec ene' = Inr b"
  shows "snd (snd (guess_norm r d model prior st))
     = st(r := (st r)[1 := np_mul (st r ! 1) (np_div (Fin a) (Fin b))])"
  using assms by (simp add: guess_norm_def py_index_def del: np_mul.simps np_div.simps)

text \<open>
  Claim C10. With \<open>guess\<close> enabled and a data set, when the posterior function returns
  at the initial guess and the two integrals are computed, the call leaves the store with
  the array of the initial guess (the module-level array \<open>p00\<close> when no \<open>p0\<close> is
  given) changed in place: component 1 is multiplied by the ratio of the integrated
  fluxes, whatever the sampler library does afterwards. A next call on that store
  evaluates the posterior function at the rescaled array.
\<close>

theorem get_sampler_rescales_p0_in_place:
  assumes "r = (case p0_arg of None \<Rightarrow> p00 | Some q \<Rightarrow> q)"
    and "lnprob (st r) d model prior = (Inr (lp, blob), out)"
    and "blob_row blob 0 0 = Inr ene'" and "blob_row blob 0 1 = Inr spec"
    and "1 < length (st r)"
    and "trapz (flux d) (ene d) = Inr a" and "trapz spec ene' = Inr b"
    and "st' = snd (snd (get_sampler lib nwalkers nburn True p0_arg (Some d) model prior threads st))"
  shows "st' = st(r := (st r)[1 := np_mul (st r ! 1) (np_div (Fin a) (Fin b))]) \<and>
    (\<exists>rest. fst (snd (get_sampler lib nwalkers nburn True p0_arg (Some d) model prior threads st'))
       = snd (lnprob ((st r)[1 := np_mul (st r ! 1) (np_div (Fin a) (Fin b))]) d model prior) @ rest)"
proof -
  have s: "st' = st(r := (st r)[1 := np_mul (st r ! 1) (np_div (Fin a) (Fin b))])"
    using guess_norm_store [of st r, OF assms(2-7)] assms(1) assms(8)
    by (simp only: get_sampler_store)
  have "st' r = (st r)[1 := np_mul (st r ! 1) (np_div (Fin a) (Fin b))]"
    by (simp only: s fun_upd_same)
  then show ?thesis
    using s get_sampler_output [of lib nwalkers nburn p0_arg d model prior threads st']
      guess_norm_output [of r d model prior st'] assms(1)
    by simp
qed


text \<open>
  A call with the default \<open>p0\<close> on the module's store, for an evaluator whose flux is
  the normalization at every energy: the module-level array holds 3 in place of
  \<open>1e-11\<close> afterwards.
\<close>

theorem get_sampler_rescales_p0_in_place_witness:
  "snd (snd (get_sampler
      \<lparr>EnsembleSampler = (\<lambda>nw nd f th. Inr \<lparr>blobs = [], flatchain = [], dim = nd, lnprobfn = f,
                                              sdata = None\<rparr>),
       sample_ball = (\<lambda>p v n. Inr (replicate n p)),
       run_mcmc = (\<lambda>s w n. (Inr (s, w), []))\<rparr>
      4 1 True None
      (Some \<lparr>ene = [0, 1], flux = [3, 3], dflux = Sym [1, 1], ul = [False, False], cl = 0\<rparr>)
      (\<lambda>p d. case p ! 1 of Fin n \<Rightarrow> Inr (Bare (map (\<lambda>e. n) (ene d)) :: unit modelout)
              | _ \<Rightarrow> Inl ValueError)
      flatprior 8 module_store)) p00
    = [Fin 2, Fin 3, Fin 10, Fin 1] \<and>
   module_store p00 = [Fin 2, Fin (1 / 10 ^ 11), Fin 10, Fin 1]"
proof -
  let ?d = "\<lparr>ene = [0, 1], flux = [3, 3], dflux = Sym [1, 1], ul = [False, False], cl = 0\<rparr>"
  let ?m = "\<lambda>p d. case p ! 1 of Fin n \<Rightarrow> Inr (Bare (map (\<lambda>e. n) (ene d)) :: unit modelout)
              | _ \<Rightarrow> Inl ValueError"
  let ?lib = "\<lparr>EnsembleSampler = (\<lambda>nw nd f th. Inr \<lparr>blobs = [], flatchain = [], dim = nd,
                   lnprobfn = f, sdata = None\<rparr>),
       sample_ball = (\<lambda>p v n. Inr (replicate n p)),
       run_mcmc = (\<lambda>s w n. (Inr (s, w), []))\<rparr>
       :: (unit, npfloat list list) emcee"
  have p: "module_store p00 = [Fin 2, Fin (1 / 10 ^ 11), Fin 10, Fin 1]"
    by (simp add: module_store_def)
  obtain ll where ll: "lnprobmodel [1 / 10 ^ 11, 1 / 10 ^ 11] ?d = Inr (Fin ll)"
    by (simp add: lnprobmodel_def logprob_array_def bool_index_def)
  have l: "lnprob (module_store p00) ?d ?m flatprior
      = (Inr (Fin ll, [Rows [[0, 1], [1 / 10 ^ 11, 1 / 10 ^ 11]]]),
         [Progress (module_store p00) (Fin ll)])"
    using ll by (simp add: p lnprob_def flatprior_def Let_def)
  have r0: "blob_row [Rows [[0, 1], [1 / 10 ^ 11, 1 / 10 ^ 11]] :: unit pyval] 0 0 = Inr [0, 1]"
    and r1: "blob_row [Rows [[0, 1], [1 / 10 ^ 11, 1 / 10 ^ 11]] :: unit pyval] 0 1
      = Inr [1 / 10 ^ 11, 1 / 10 ^ 11]"
    by (simp_all add: blob_row_def py_index_def)
  have len: "1 < length (module_store p00)" by (simp add: p)
  have a: "trapz (flux ?d) (ene ?d) = Inr 3"
    and b: "trapz [1 / 10 ^ 11, 1 / 10 ^ 11] [0, 1] = Inr (1 / 10 ^ 11)"
    by (simp_all add: trapz_def np_times_def diff_def)
  have r: "p00 = (case None :: nat option of None \<Rightarrow> p00 | Some q \<Rightarrow> q)" by simp
  show ?thesis
    using get_sampler_rescales_p0_in_place [of p00 None module_store ?d ?m flatprior,
        OF r l r0 r1 len a b refl, of ?lib 4 1 8] p
    by simp
qed

end
